theory Spec2Isabelle
  imports Main "HOL-Library.Word"
begin

section \<open>The nginx operator's object builders (pkg/stub/k8s/k8s.go)\<close>

text \<open>
  The Go package builds a Deployment and a Service from an Nginx custom resource and
  stores the resource's spec, as JSON, in an annotation of the Deployment. The model
  below follows k8s.go function by function. A Go struct is a record with the fields
  the code reads or writes, a pointer field is an \<open>option\<close> (\<open>None\<close> is nil), a
  slice is a list (\<open>[]\<close> is the nil slice), a \<open>map[string]string\<close> field is an
  optional map (\<open>None\<close> is the nil map), \<open>int32\<close> is \<open>32 word\<close>. A function that
  mutates its argument returns the new value of that argument.
\<close>

subsection \<open>Errors and panics\<close>

text \<open>
  \<open>Error m\<close> is a Go \<open>error\<close> value whose message is \<open>m\<close>; \<open>Panic m\<close> is a run-time
  panic (the only one the code can raise is the indexing \<open>Containers[0]\<close>).
\<close>

datatype error = Error string | Panic string

fun errorMessage :: "error \<Rightarrow> string" where
  "errorMessage (Error m) = m"
| "errorMessage (Panic m) = m"

subsection \<open>The custom resource (package v1alpha1)\<close>

text \<open>
  Modelled from the spec: the types \<open>Nginx\<close>, \<open>NginxSpec\<close>, \<open>ConfigRef\<close> and
  \<open>TLSSecret\<close> of package v1alpha1 (the ResourceSpec of section 3 of the
  specification). The records hold the fields that k8s.go reads and writes, under the
  names k8s.go uses. The container resources and the affinity are copied by the code
  and never inspected: they are the type parameters \<open>'res\<close> and \<open>'aff\<close>.
\<close>

type_synonym ConfigKind = string

text \<open>
  Modelled from the spec: the two configuration kinds (constants of package v1alpha1).
  The spec names them "config-store-reference" and "inline"; k8s.go only compares a
  kind with them, and the two cases of one Go \<open>switch\<close> are distinct constants.
\<close>

definition ConfigKindConfigMap :: ConfigKind where
  "ConfigKindConfigMap = ''config-store-reference''"

definition ConfigKindInline :: ConfigKind where
  "ConfigKindInline = ''inline''"

record ConfigRef =
  Kind :: ConfigKind
  Name :: string
  Value :: string

record TLSSecret =
  SecretName :: string
  KeyField :: string
  CertificateField :: string
  KeyPath :: string
  CertificatePath :: string

record ('res, 'aff) NginxPodTemplateSpec =
  Resources :: 'res
  Affinity :: 'aff

record ('res, 'aff) NginxSpec =
  Replicas :: "32 word option"
  Image :: string
  Config :: "ConfigRef option"
  TLSSecret :: "TLSSecret option"
  PodTemplate :: "('res, 'aff) NginxPodTemplateSpec"

subsection \<open>Kubernetes objects (packages metav1, corev1, appv1)\<close>

type_synonym gomap = "(string \<rightharpoonup> string) option"

record TypeMeta =
  Kind :: string
  APIVersion :: string

record OwnerReference =
  APIVersion :: string
  Kind :: string
  Name :: string
  UID :: string
  Controller :: "bool option"
  BlockOwnerDeletion :: "bool option"

record ObjectMeta =
  Name :: string
  Namespace :: string
  UID :: string
  Labels :: gomap
  Annotations :: gomap
  OwnerReferences :: "OwnerReference list"

record ('res, 'aff) Nginx =
  ObjectMeta :: ObjectMeta
  Spec :: "('res, 'aff) NginxSpec"

record GroupVersion =
  Group :: string
  Version :: string

record GroupVersionKind =
  Group :: string
  Version :: string
  Kind :: string

datatype Protocol = ProtocolTCP | ProtocolUDP | ProtocolSCTP

datatype URIScheme = URISchemeHTTP | URISchemeHTTPS

datatype ServiceType = ServiceTypeClusterIP | ServiceTypeNodePort | ServiceTypeLoadBalancer

datatype IntOrString = FromInt "32 word" | FromString string

record ContainerPort =
  Name :: string
  ContainerPort :: "32 word"
  Protocol :: Protocol

record HTTPGetAction =
  Path :: string
  Port :: IntOrString
  Scheme :: URIScheme

record Handler =
  HTTPGet :: "HTTPGetAction option"

record Probe =
  Handler :: Handler

record VolumeMount =
  Name :: string
  MountPath :: string

record LocalObjectReference =
  Name :: string

record ConfigMapVolumeSource =
  LocalObjectReference :: LocalObjectReference

record ObjectFieldSelector =
  FieldPath :: string

record DownwardAPIVolumeFile =
  Path :: string
  FieldRef :: "ObjectFieldSelector option"

record DownwardAPIVolumeSource =
  Items :: "DownwardAPIVolumeFile list"

record KeyToPath =
  Key :: string
  Path :: string

record SecretVolumeSource =
  SecretName :: string
  Items :: "KeyToPath list"

record VolumeSource =
  ConfigMap :: "ConfigMapVolumeSource option"
  DownwardAPI :: "DownwardAPIVolumeSource option"
  Secret :: "SecretVolumeSource option"

record Volume =
  Name :: string
  VolumeSource :: VolumeSource

record 'res Container =
  Name :: string
  Image :: string
  Ports :: "ContainerPort list"
  Resources :: 'res
  ReadinessProbe :: "Probe option"
  VolumeMounts :: "VolumeMount list"

record ('res, 'aff) PodSpec =
  Containers :: "'res Container list"
  Volumes :: "Volume list"
  Affinity :: 'aff

record ('res, 'aff) PodTemplateSpec =
  ObjectMeta :: ObjectMeta
  Spec :: "('res, 'aff) PodSpec"

record LabelSelector =
  MatchLabels :: gomap

record ('res, 'aff) DeploymentSpec =
  Replicas :: "32 word option"
  Selector :: "LabelSelector option"
  Template :: "('res, 'aff) PodTemplateSpec"

record ('res, 'aff) Deployment =
  TypeMeta :: TypeMeta
  ObjectMeta :: ObjectMeta
  Spec :: "('res, 'aff) DeploymentSpec"

record ServicePort =
  Name :: string
  Protocol :: Protocol
  TargetPort :: IntOrString
  Port :: "32 word"

record ServiceSpec =
  Ports :: "ServicePort list"
  Selector :: gomap
  Type :: ServiceType

record Service =
  TypeMeta :: TypeMeta
  ObjectMeta :: ObjectMeta
  Spec :: ServiceSpec

text \<open>The zero value of a metav1.ObjectMeta and of a corev1.VolumeSource.\<close>

definition emptyObjectMeta :: ObjectMeta where
  "emptyObjectMeta =
     \<lparr>ObjectMeta.Name = '''', Namespace = '''', ObjectMeta.UID = '''', Labels = None,
      Annotations = None, OwnerReferences = []\<rparr>"

definition emptyVolumeSource :: VolumeSource where
  "emptyVolumeSource = \<lparr>ConfigMap = None, DownwardAPI = None, Secret = None\<rparr>"

text \<open>
  The group and version the operator registers (\<open>v1alpha1.SchemeGroupVersion\<close>);
  main.go watches the resource "nginx.tsuru.io/v1alpha1".
\<close>

definition SchemeGroupVersion :: GroupVersion where
  "SchemeGroupVersion = \<lparr>GroupVersion.Group = ''nginx.tsuru.io'', GroupVersion.Version = ''v1alpha1''\<rparr>"

text \<open>
  \<open>metav1.NewControllerRef\<close> of the Kubernetes library: it reads the owner's name and
  UID and returns a reference marked as controller. It has no error result.
\<close>

definition GroupVersionString :: "GroupVersionKind \<Rightarrow> string" where
  "GroupVersionString gvk =
     (if GroupVersionKind.Group gvk \<noteq> ''''
      then GroupVersionKind.Group gvk @ ''/'' @ GroupVersionKind.Version gvk
      else GroupVersionKind.Version gvk)"

definition NewControllerRef :: "('res, 'aff) Nginx \<Rightarrow> GroupVersionKind \<Rightarrow> OwnerReference" where
  "NewControllerRef owner gvk =
     \<lparr>OwnerReference.APIVersion = GroupVersionString gvk,
      OwnerReference.Kind = GroupVersionKind.Kind gvk,
      OwnerReference.Name = ObjectMeta.Name (Nginx.ObjectMeta owner),
      OwnerReference.UID = ObjectMeta.UID (Nginx.ObjectMeta owner),
      Controller = Some True,
      BlockOwnerDeletion = Some True\<rparr>"

subsection \<open>Constants of k8s.go\<close>

definition defaultNginxImage :: string where
  "defaultNginxImage = ''nginx:latest''"

definition defaultHTTPPortName :: string where
  "defaultHTTPPortName = ''http''"

definition defaultHTTPSPortName :: string where
  "defaultHTTPSPortName = ''https''"

definition configMountPath :: string where
  "configMountPath = ''/etc/nginx''"

definition certMountPath :: string where
  "certMountPath = configMountPath @ ''/certs''"

definition generatedFromAnnotation :: string where
  "generatedFromAnnotation = ''nginx.tsuru.io/generated-from''"

subsection \<open>Helpers of the model\<close>

text \<open>Reading a key of a Go map; a nil map has no keys.\<close>

definition mapLookup :: "gomap \<Rightarrow> string \<Rightarrow> string option" where
  "mapLookup m k = (case m of None \<Rightarrow> None | Some f \<Rightarrow> f k)"

text \<open>
  The verb \<open>%q\<close> of \<open>fmt\<close> on a string of printable ASCII characters with no double
  quote and no backslash (the annotation key is one): the string between double quotes.
\<close>

definition fmtQuote :: "string \<Rightarrow> string" where
  "fmtQuote s = [CHR 0x22] @ s @ [CHR 0x22]"

text \<open>The path \<open>dep.Spec.Template.Spec\<close>: reading it and updating it.\<close>

definition depPodSpec :: "('res, 'aff) Deployment \<Rightarrow> ('res, 'aff) PodSpec" where
  "depPodSpec dep = PodTemplateSpec.Spec (Template (Deployment.Spec dep))"

definition depSetPodSpec ::
  "('res, 'aff) PodSpec \<Rightarrow> ('res, 'aff) Deployment \<Rightarrow> ('res, 'aff) Deployment" where
  "depSetPodSpec ps dep =
     dep\<lparr>Deployment.Spec := (Deployment.Spec dep)
       \<lparr>Template := (Template (Deployment.Spec dep))\<lparr>PodTemplateSpec.Spec := ps\<rparr>\<rparr>\<rparr>"

text \<open>The path \<open>dep.Spec.Template.Annotations\<close>.\<close>

definition depTemplateAnnotations :: "('res, 'aff) Deployment \<Rightarrow> gomap" where
  "depTemplateAnnotations dep =
     Annotations (PodTemplateSpec.ObjectMeta (Template (Deployment.Spec dep)))"

definition depSetTemplateAnnotations ::
  "gomap \<Rightarrow> ('res, 'aff) Deployment \<Rightarrow> ('res, 'aff) Deployment" where
  "depSetTemplateAnnotations a dep =
     dep\<lparr>Deployment.Spec := (Deployment.Spec dep)
       \<lparr>Template := (Template (Deployment.Spec dep))
         \<lparr>PodTemplateSpec.ObjectMeta :=
            (PodTemplateSpec.ObjectMeta (Template (Deployment.Spec dep)))\<lparr>Annotations := a\<rparr>\<rparr>\<rparr>\<rparr>"

subsection \<open>The functions of k8s.go\<close>

definition valueOrDefault :: "string \<Rightarrow> string \<Rightarrow> string" where
  "valueOrDefault val def = (if val \<noteq> '''' then val else def)"

definition LabelsForNginx :: "string \<Rightarrow> (string \<rightharpoonup> string)" where
  "LabelsForNginx name = [''nginx_cr'' \<mapsto> name, ''app'' \<mapsto> ''nginx'']"

text \<open>
  \<open>ExtractNginxSpec\<close> and \<open>SetNginxSpec\<close> call \<open>json.Unmarshal\<close> and \<open>json.Marshal\<close> of
  Go's standard library on an \<open>NginxSpec\<close>; the two library functions are the
  parameters \<open>unmarshal\<close> and \<open>marshal\<close>.
\<close>

definition ExtractNginxSpec ::
  "(string \<Rightarrow> error + ('res, 'aff) NginxSpec) \<Rightarrow> ObjectMeta \<Rightarrow> error + ('res, 'aff) NginxSpec" where
  "ExtractNginxSpec unmarshal om =
     (case mapLookup (Annotations om) generatedFromAnnotation of
        None \<Rightarrow>
          Inl (Error (''missing '' @ fmtQuote generatedFromAnnotation @ '' annotation in deployment''))
      | Some ann \<Rightarrow>
          (case unmarshal ann of
             Inl err \<Rightarrow>
               Inl (Error (''failed to unmarshal nginx from annotation: '' @ errorMessage err))
           | Inr spec \<Rightarrow> Inr spec))"

text \<open>\<open>SetNginxSpec\<close> returns its error result and the updated \<open>*o\<close>.\<close>

definition SetNginxSpec ::
  "(('res, 'aff) NginxSpec \<Rightarrow> error + string) \<Rightarrow> ObjectMeta \<Rightarrow> ('res, 'aff) NginxSpec
     \<Rightarrow> error option \<times> ObjectMeta" where
  "SetNginxSpec marshal om spec =
     (let anns = (case Annotations om of None \<Rightarrow> Map.empty | Some m \<Rightarrow> m);
          om1 = om\<lparr>Annotations := Some anns\<rparr>
      in case marshal spec of
           Inl err \<Rightarrow> (Some err, om1)
         | Inr origSpec \<Rightarrow>
             (None, om1\<lparr>Annotations := Some (anns(generatedFromAnnotation \<mapsto> origSpec))\<rparr>))"

text \<open>
  \<open>setupConfig\<close> returns the updated \<open>*dep\<close>, or the panic of \<open>Containers[0]\<close> on a
  deployment with no container.
\<close>

definition setupConfig ::
  "ConfigRef option \<Rightarrow> ('res, 'aff) Deployment \<Rightarrow> error + ('res, 'aff) Deployment" where
  "setupConfig conf dep =
     (case conf of
        None \<Rightarrow> Inr dep
      | Some c \<Rightarrow>
          (case Containers (depPodSpec dep) of
             [] \<Rightarrow> Inl (Panic ''index out of range [0] with length 0'')
           | c0 # cs \<Rightarrow>
               let c1 = c0\<lparr>VolumeMounts := VolumeMounts c0 @
                          [\<lparr>VolumeMount.Name = ''nginx-config'', MountPath = configMountPath\<rparr>]\<rparr>;
                   dep1 = depSetPodSpec ((depPodSpec dep)\<lparr>Containers := c1 # cs\<rparr>) dep
               in if ConfigRef.Kind c = ConfigKindConfigMap then
                    Inr (depSetPodSpec ((depPodSpec dep1)\<lparr>Volumes := Volumes (depPodSpec dep1) @
                      [\<lparr>Volume.Name = ''nginx-config'',
                        VolumeSource = emptyVolumeSource\<lparr>ConfigMap :=
                          Some \<lparr>LocalObjectReference =
                            \<lparr>LocalObjectReference.Name = ConfigRef.Name c\<rparr>\<rparr>\<rparr>\<rparr>]\<rparr>) dep1)
                  else if ConfigRef.Kind c = ConfigKindInline then
                    let anns = (case depTemplateAnnotations dep1 of
                                  None \<Rightarrow> Map.empty | Some m \<Rightarrow> m);
                        dep2 = depSetTemplateAnnotations
                                 (Some (anns(ConfigRef.Name c \<mapsto> Value c))) dep1
                    in Inr (depSetPodSpec ((depPodSpec dep2)\<lparr>Volumes := Volumes (depPodSpec dep2) @
                      [\<lparr>Volume.Name = ''nginx-config'',
                        VolumeSource = emptyVolumeSource\<lparr>DownwardAPI :=
                          Some \<lparr>DownwardAPIVolumeSource.Items =
                            [\<lparr>DownwardAPIVolumeFile.Path = ''nginx.conf'',
                              FieldRef = Some \<lparr>FieldPath =
                                ''metadata.annotations['' @ [CHR 0x27] @ ConfigRef.Name c @
                                [CHR 0x27] @ '']''\<rparr>\<rparr>]\<rparr>\<rparr>\<rparr>]\<rparr>) dep2)
                  else Inr dep1))"

text \<open>
  \<open>setupTLS\<close> returns the updated \<open>*secret\<close> and \<open>*dep\<close>, or the panic of
  \<open>Containers[0]\<close>.
\<close>

definition setupTLS ::
  "TLSSecret option \<Rightarrow> ('res, 'aff) Deployment
     \<Rightarrow> error + (TLSSecret option \<times> ('res, 'aff) Deployment)" where
  "setupTLS secret dep =
     (case secret of
        None \<Rightarrow> Inr (None, dep)
      | Some s \<Rightarrow>
          (case Containers (depPodSpec dep) of
             [] \<Rightarrow> Inl (Panic ''index out of range [0] with length 0'')
           | c0 # cs \<Rightarrow>
               let c1 = c0\<lparr>Container.Ports := Container.Ports c0 @
                          [\<lparr>ContainerPort.Name = defaultHTTPSPortName, ContainerPort = 443,
                            ContainerPort.Protocol = ProtocolTCP\<rparr>]\<rparr>;
                   c2 = c1\<lparr>ReadinessProbe := Some \<lparr>Handler = \<lparr>HTTPGet = Some
                          \<lparr>HTTPGetAction.Path = ''/'', HTTPGetAction.Port = FromString defaultHTTPSPortName,
                           Scheme = URISchemeHTTPS\<rparr>\<rparr>\<rparr>\<rparr>;
                   c3 = c2\<lparr>VolumeMounts := VolumeMounts c2 @
                          [\<lparr>VolumeMount.Name = ''nginx-certs'', MountPath = certMountPath\<rparr>]\<rparr>;
                   dep1 = depSetPodSpec ((depPodSpec dep)\<lparr>Containers := c3 # cs\<rparr>) dep;
                   s1 = s\<lparr>KeyField := valueOrDefault (KeyField s) ''tls.key''\<rparr>;
                   s2 = s1\<lparr>CertificateField := valueOrDefault (CertificateField s1) ''tls.crt''\<rparr>;
                   s3 = s2\<lparr>KeyPath := valueOrDefault (KeyPath s2) (KeyField s2)\<rparr>;
                   s4 = s3\<lparr>CertificatePath :=
                          valueOrDefault (CertificatePath s3) (CertificateField s3)\<rparr>
               in Inr (Some s4,
                    depSetPodSpec ((depPodSpec dep1)\<lparr>Volumes := Volumes (depPodSpec dep1) @
                      [\<lparr>Volume.Name = ''nginx-certs'',
                        VolumeSource = emptyVolumeSource\<lparr>Secret :=
                          Some \<lparr>SecretVolumeSource.SecretName = TLSSecret.SecretName s4,
                                SecretVolumeSource.Items = [\<lparr>Key = KeyField s4, KeyToPath.Path = KeyPath s4\<rparr>,
                                         \<lparr>Key = CertificateField s4,
                                          KeyToPath.Path = CertificatePath s4\<rparr>]\<rparr>\<rparr>\<rparr>]\<rparr>) dep1)))"

text \<open>
  The \<open>schema.GroupVersionKind\<close> literal that \<open>NewDeployment\<close> and \<open>NewService\<close>
  pass to \<open>NewControllerRef\<close>.
\<close>

definition nginxGroupVersionKind :: GroupVersionKind where
  "nginxGroupVersionKind =
     \<lparr>GroupVersionKind.Group = GroupVersion.Group SchemeGroupVersion,
      GroupVersionKind.Version = GroupVersion.Version SchemeGroupVersion,
      GroupVersionKind.Kind = ''Nginx''\<rparr>"

text \<open>
  The composite literal that \<open>NewDeployment\<close> assigns to \<open>deployment\<close> (lines 38 to
  92), read after the image default has been written into \<open>n\<close>.
\<close>

definition deploymentLiteral :: "('res, 'aff) Nginx \<Rightarrow> ('res, 'aff) Deployment" where
  "deploymentLiteral n =
     \<lparr>Deployment.TypeMeta =
        \<lparr>TypeMeta.Kind = ''Deployment'', TypeMeta.APIVersion = ''apps/v1''\<rparr>,
      Deployment.ObjectMeta = emptyObjectMeta
        \<lparr>ObjectMeta.Name := ObjectMeta.Name (Nginx.ObjectMeta n) @ ''-deployment'',
         Namespace := Namespace (Nginx.ObjectMeta n),
         OwnerReferences := [NewControllerRef n nginxGroupVersionKind]\<rparr>,
      Deployment.Spec =
        \<lparr>DeploymentSpec.Replicas = NginxSpec.Replicas (Nginx.Spec n),
         DeploymentSpec.Selector =
           Some \<lparr>MatchLabels = Some (LabelsForNginx (ObjectMeta.Name (Nginx.ObjectMeta n)))\<rparr>,
         Template =
           \<lparr>PodTemplateSpec.ObjectMeta = emptyObjectMeta
              \<lparr>Namespace := Namespace (Nginx.ObjectMeta n),
               Labels := Some (LabelsForNginx (ObjectMeta.Name (Nginx.ObjectMeta n)))\<rparr>,
            PodTemplateSpec.Spec =
              \<lparr>Containers =
                 [\<lparr>Container.Name = ''nginx'',
                   Container.Image = NginxSpec.Image (Nginx.Spec n),
                   Container.Ports =
                     [\<lparr>ContainerPort.Name = defaultHTTPPortName, ContainerPort = 80,
                       ContainerPort.Protocol = ProtocolTCP\<rparr>],
                   Container.Resources =
                     NginxPodTemplateSpec.Resources (PodTemplate (Nginx.Spec n)),
                   ReadinessProbe = Some \<lparr>Handler = \<lparr>HTTPGet = Some
                     \<lparr>HTTPGetAction.Path = ''/'',
                      HTTPGetAction.Port = FromString defaultHTTPPortName,
                      Scheme = URISchemeHTTP\<rparr>\<rparr>\<rparr>,
                   VolumeMounts = []\<rparr>],
               Volumes = [],
               PodSpec.Affinity =
                 NginxPodTemplateSpec.Affinity (PodTemplate (Nginx.Spec n))\<rparr>\<rparr>\<rparr>\<rparr>"

text \<open>
  \<open>NewDeployment\<close> returns its result (the deployment, or the error) and the updated
  \<open>*n\<close>: the function writes the defaults into the caller's resource.
\<close>

definition NewDeployment ::
  "(('res, 'aff) NginxSpec \<Rightarrow> error + string) \<Rightarrow> ('res, 'aff) Nginx
     \<Rightarrow> (error + ('res, 'aff) Deployment) \<times> ('res, 'aff) Nginx" where
  "NewDeployment marshal n =
     (let n1 = n\<lparr>Nginx.Spec := (Nginx.Spec n)
                 \<lparr>NginxSpec.Image :=
                    valueOrDefault (NginxSpec.Image (Nginx.Spec n)) defaultNginxImage\<rparr>\<rparr>;
          deployment = deploymentLiteral n1
      in case setupConfig (Config (Nginx.Spec n1)) deployment of
           Inl p \<Rightarrow> (Inl p, n1)
         | Inr dep1 \<Rightarrow>
             (case setupTLS (NginxSpec.TLSSecret (Nginx.Spec n1)) dep1 of
                Inl p \<Rightarrow> (Inl p, n1)
              | Inr (secret, dep2) \<Rightarrow>
                  let n2 = n1\<lparr>Nginx.Spec := (Nginx.Spec n1)\<lparr>TLSSecret := secret\<rparr>\<rparr>
                  in case SetNginxSpec marshal (Deployment.ObjectMeta dep2) (Nginx.Spec n2) of
                       (Some err, om) \<Rightarrow> (Inl err, n2)
                     | (None, om) \<Rightarrow> (Inr (dep2\<lparr>Deployment.ObjectMeta := om\<rparr>), n2)))"

definition NewService :: "('res, 'aff) Nginx \<Rightarrow> Service" where
  "NewService n =
     (let name = ObjectMeta.Name (Nginx.ObjectMeta n);
          service =
            \<lparr>Service.TypeMeta = \<lparr>TypeMeta.Kind = ''Service'', TypeMeta.APIVersion = ''v1''\<rparr>,
             Service.ObjectMeta = emptyObjectMeta
               \<lparr>ObjectMeta.Name := name @ ''-service'',
                Namespace := Namespace (Nginx.ObjectMeta n),
                OwnerReferences :=
                  [NewControllerRef n nginxGroupVersionKind],
                Labels := Some (LabelsForNginx name)\<rparr>,
             Service.Spec =
               \<lparr>ServiceSpec.Ports =
                  [\<lparr>ServicePort.Name = defaultHTTPPortName, ServicePort.Protocol = ProtocolTCP,
                    TargetPort = FromString defaultHTTPPortName, ServicePort.Port = 80\<rparr>],
                ServiceSpec.Selector = Some (LabelsForNginx name),
                Type = ServiceTypeClusterIP\<rparr>\<rparr>
      in if NginxSpec.TLSSecret (Nginx.Spec n) \<noteq> None then
           service\<lparr>Service.Spec := (Service.Spec service)
             \<lparr>ServiceSpec.Ports := ServiceSpec.Ports (Service.Spec service) @
                [\<lparr>ServicePort.Name = defaultHTTPSPortName, ServicePort.Protocol = ProtocolTCP,
                  TargetPort = FromString defaultHTTPSPortName, ServicePort.Port = 443\<rparr>]\<rparr>\<rparr>
         else service)"

subsection \<open>The specification's normalizer\<close>

text \<open>
  The Spec Normalizer as the specification words it (section 4.1): an empty image
  becomes the default tag; when a TLS reference is present, an empty key field becomes
  "tls.key", an empty certificate field "tls.crt", an empty key path the resolved key
  field and an empty certificate path the resolved certificate field. The code has no
  function of this name: it writes the defaults in \<open>NewDeployment\<close> and \<open>setupTLS\<close>,
  and the theorems below compare the two.
\<close>

definition spec_normalizeTLS :: "TLSSecret \<Rightarrow> TLSSecret" where
  "spec_normalizeTLS s =
     (let keyField = (if KeyField s = '''' then ''tls.key'' else KeyField s);
          certField = (if CertificateField s = '''' then ''tls.crt'' else CertificateField s)
      in \<lparr>TLSSecret.SecretName = TLSSecret.SecretName s,
          KeyField = keyField,
          CertificateField = certField,
          KeyPath = (if KeyPath s = '''' then keyField else KeyPath s),
          CertificatePath = (if CertificatePath s = '''' then certField else CertificatePath s)\<rparr>)"

definition spec_normalize :: "('res, 'aff) NginxSpec \<Rightarrow> ('res, 'aff) NginxSpec" where
  "spec_normalize spec =
     spec\<lparr>NginxSpec.Image :=
            (if NginxSpec.Image spec = '''' then ''nginx:latest'' else NginxSpec.Image spec),
          TLSSecret := map_option spec_normalizeTLS (NginxSpec.TLSSecret spec)\<rparr>"

subsection \<open>A worked example\<close>

definition exampleSpec :: "(unit, unit) NginxSpec" where
  "exampleSpec =
     \<lparr>NginxSpec.Replicas = Some 3,
      NginxSpec.Image = '''',
      Config = Some \<lparr>ConfigRef.Kind = ConfigKindInline, ConfigRef.Name = ''custom'',
                     Value = ''worker_processes 2;''\<rparr>,
      TLSSecret = Some \<lparr>TLSSecret.SecretName = ''mysecret'', KeyField = '''',
                        CertificateField = '''', KeyPath = '''', CertificatePath = ''''\<rparr>,
      PodTemplate = \<lparr>NginxPodTemplateSpec.Resources = (), NginxPodTemplateSpec.Affinity = ()\<rparr>\<rparr>"

definition exampleNginx :: "(unit, unit) Nginx" where
  "exampleNginx =
     \<lparr>Nginx.ObjectMeta =
        \<lparr>ObjectMeta.Name = ''web'', Namespace = ''default'', ObjectMeta.UID = ''uid-1'',
         Labels = None, Annotations = None, OwnerReferences = []\<rparr>,
      Nginx.Spec = exampleSpec\<rparr>"

definition exampleResolvedSpec :: "(unit, unit) NginxSpec" where
  "exampleResolvedSpec =
     \<lparr>NginxSpec.Replicas = Some 3,
      NginxSpec.Image = ''nginx:latest'',
      Config = Some \<lparr>ConfigRef.Kind = ConfigKindInline, ConfigRef.Name = ''custom'',
                     Value = ''worker_processes 2;''\<rparr>,
      TLSSecret = Some \<lparr>TLSSecret.SecretName = ''mysecret'', KeyField = ''tls.key'',
                        CertificateField = ''tls.crt'', KeyPath = ''tls.key'',
                        CertificatePath = ''tls.crt''\<rparr>,
      PodTemplate = \<lparr>NginxPodTemplateSpec.Resources = (), NginxPodTemplateSpec.Affinity = ()\<rparr>\<rparr>"

text \<open>
  A stand-in for the JSON library on one document: \<open>exampleMarshal\<close> encodes the
  resolved example spec and refuses every other value, \<open>exampleUnmarshal\<close> decodes that
  one document.
\<close>

definition exampleJSON :: string where
  "exampleJSON = ''{resolved example spec}''"

definition exampleMarshal :: "(unit, unit) NginxSpec \<Rightarrow> error + string" where
  "exampleMarshal s =
     (if s = exampleResolvedSpec then Inr exampleJSON
      else Inl (Error ''json: unsupported value''))"

definition exampleUnmarshal :: "string \<Rightarrow> error + (unit, unit) NginxSpec" where
  "exampleUnmarshal j =
     (if j = exampleJSON then Inr exampleResolvedSpec
      else Inl (Error ''invalid character''))"

text \<open>The deployment the code builds for \<open>exampleNginx\<close>, written out.\<close>

definition exampleContainer :: "unit Container" where
  "exampleContainer =
     \<lparr>Container.Name = ''nginx'',
      Container.Image = ''nginx:latest'',
      Container.Ports =
        [\<lparr>ContainerPort.Name = ''http'', ContainerPort = 80,
          ContainerPort.Protocol = ProtocolTCP\<rparr>,
         \<lparr>ContainerPort.Name = ''https'', ContainerPort = 443,
          ContainerPort.Protocol = ProtocolTCP\<rparr>],
      Container.Resources = (),
      ReadinessProbe = Some \<lparr>Handler = \<lparr>HTTPGet = Some
        \<lparr>HTTPGetAction.Path = ''/'', HTTPGetAction.Port = FromString ''https'',
         Scheme = URISchemeHTTPS\<rparr>\<rparr>\<rparr>,
      VolumeMounts =
        [\<lparr>VolumeMount.Name = ''nginx-config'', MountPath = ''/etc/nginx''\<rparr>,
         \<lparr>VolumeMount.Name = ''nginx-certs'', MountPath = ''/etc/nginx/certs''\<rparr>]\<rparr>"

definition exampleVolumes :: "Volume list" where
  "exampleVolumes =
     [\<lparr>Volume.Name = ''nginx-config'',
       VolumeSource =
         \<lparr>ConfigMap = None,
          DownwardAPI = Some \<lparr>DownwardAPIVolumeSource.Items =
            [\<lparr>DownwardAPIVolumeFile.Path = ''nginx.conf'',
              FieldRef = Some \<lparr>FieldPath =
                ''metadata.annotations['' @ [CHR 0x27] @ ''custom'' @ [CHR 0x27] @ '']''\<rparr>\<rparr>]\<rparr>,
          Secret = None\<rparr>\<rparr>,
      \<lparr>Volume.Name = ''nginx-certs'',
       VolumeSource =
         \<lparr>ConfigMap = None, DownwardAPI = None,
          Secret = Some
            \<lparr>SecretVolumeSource.SecretName = ''mysecret'',
             SecretVolumeSource.Items =
               [\<lparr>Key = ''tls.key'', KeyToPath.Path = ''tls.key''\<rparr>,
                \<lparr>Key = ''tls.crt'', KeyToPath.Path = ''tls.crt''\<rparr>]\<rparr>\<rparr>\<rparr>]"

definition exampleDeployment :: "(unit, unit) Deployment" where
  "exampleDeployment =
     \<lparr>Deployment.TypeMeta =
        \<lparr>TypeMeta.Kind = ''Deployment'', TypeMeta.APIVersion = ''apps/v1''\<rparr>,
      Deployment.ObjectMeta =
        \<lparr>ObjectMeta.Name = ''web-deployment'', Namespace = ''default'', ObjectMeta.UID = '''',
         Labels = None,
         Annotations = Some [''nginx.tsuru.io/generated-from'' \<mapsto> exampleJSON],
         OwnerReferences =
           [\<lparr>OwnerReference.APIVersion = ''nginx.tsuru.io/v1alpha1'',
             OwnerReference.Kind = ''Nginx'', OwnerReference.Name = ''web'',
             OwnerReference.UID = ''uid-1'', Controller = Some True,
             BlockOwnerDeletion = Some True\<rparr>]\<rparr>,
      Deployment.Spec =
        \<lparr>DeploymentSpec.Replicas = Some 3,
         DeploymentSpec.Selector =
           Some \<lparr>MatchLabels = Some [''nginx_cr'' \<mapsto> ''web'', ''app'' \<mapsto> ''nginx'']\<rparr>,
         Template =
           \<lparr>PodTemplateSpec.ObjectMeta =
              \<lparr>ObjectMeta.Name = '''', Namespace = ''default'', ObjectMeta.UID = '''',
               Labels = Some [''nginx_cr'' \<mapsto> ''web'', ''app'' \<mapsto> ''nginx''],
               Annotations = Some [''custom'' \<mapsto> ''worker_processes 2;''],
               OwnerReferences = []\<rparr>,
            PodTemplateSpec.Spec =
              \<lparr>Containers = [exampleContainer], Volumes = exampleVolumes,
               PodSpec.Affinity = ()\<rparr>\<rparr>\<rparr>\<rparr>"

section \<open>Auxiliary facts\<close>

lemmas path_defs = depPodSpec_def depSetPodSpec_def depTemplateAnnotations_def
  depSetTemplateAnnotations_def

lemma kinds_distinct: "ConfigKindConfigMap \<noteq> ConfigKindInline"
  by (simp add: ConfigKindConfigMap_def ConfigKindInline_def)

lemma spec_normalizeTLS_idem: "spec_normalizeTLS (spec_normalizeTLS s) = spec_normalizeTLS s"
  by (simp add: spec_normalizeTLS_def Let_def)

lemma spec_normalizeTLS_nonempty:
  "KeyField (spec_normalizeTLS s) \<noteq> [] \<and> CertificateField (spec_normalizeTLS s) \<noteq> [] \<and>
   KeyPath (spec_normalizeTLS s) \<noteq> [] \<and> CertificatePath (spec_normalizeTLS s) \<noteq> []"
  by (simp add: spec_normalizeTLS_def Let_def)

lemma spec_normalize_idem: "spec_normalize (spec_normalize spec) = spec_normalize spec"
  by (cases "NginxSpec.TLSSecret spec") (simp_all add: spec_normalize_def spec_normalizeTLS_idem)

lemma literal_containers:
  "Containers (depPodSpec (deploymentLiteral n)) =
     [\<lparr>Container.Name = ''nginx'',
       Container.Image = NginxSpec.Image (Nginx.Spec n),
       Container.Ports =
         [\<lparr>ContainerPort.Name = ''http'', ContainerPort = 80,
           ContainerPort.Protocol = ProtocolTCP\<rparr>],
       Container.Resources = NginxPodTemplateSpec.Resources (PodTemplate (Nginx.Spec n)),
       ReadinessProbe = Some \<lparr>Handler = \<lparr>HTTPGet = Some
         \<lparr>HTTPGetAction.Path = ''/'', HTTPGetAction.Port = FromString ''http'',
          Scheme = URISchemeHTTP\<rparr>\<rparr>\<rparr>,
       VolumeMounts = []\<rparr>]"
  by (simp add: deploymentLiteral_def depPodSpec_def defaultHTTPPortName_def)

lemma literal_rest:
  "Volumes (depPodSpec (deploymentLiteral n)) = [] \<and>
   depTemplateAnnotations (deploymentLiteral n) = None \<and>
   Annotations (Deployment.ObjectMeta (deploymentLiteral n)) = None \<and>
   OwnerReferences (Deployment.ObjectMeta (deploymentLiteral n)) =
     [NewControllerRef n nginxGroupVersionKind] \<and>
   DeploymentSpec.Selector (Deployment.Spec (deploymentLiteral n)) =
     Some \<lparr>MatchLabels = Some (LabelsForNginx (ObjectMeta.Name (Nginx.ObjectMeta n)))\<rparr> \<and>
   Labels (PodTemplateSpec.ObjectMeta (Template (Deployment.Spec (deploymentLiteral n)))) =
     Some (LabelsForNginx (ObjectMeta.Name (Nginx.ObjectMeta n)))"
  by (simp add: deploymentLiteral_def depPodSpec_def depTemplateAnnotations_def
        emptyObjectMeta_def)

lemma literal_cong:
  "deploymentLiteral (n\<lparr>Nginx.Spec := (Nginx.Spec n)\<lparr>TLSSecret := sec\<rparr>\<rparr>) = deploymentLiteral n"
  by (simp add: deploymentLiteral_def NewControllerRef_def)

lemma setupConfig_obs:
  assumes "Containers (depPodSpec dep) = c0 # cs"
  shows "\<exists>dep'. setupConfig conf dep = Inr dep' \<and>
     Deployment.ObjectMeta dep' = Deployment.ObjectMeta dep \<and>
     DeploymentSpec.Selector (Deployment.Spec dep') =
       DeploymentSpec.Selector (Deployment.Spec dep) \<and>
     Labels (PodTemplateSpec.ObjectMeta (Template (Deployment.Spec dep'))) =
       Labels (PodTemplateSpec.ObjectMeta (Template (Deployment.Spec dep))) \<and>
     Containers (depPodSpec dep') =
       (case conf of None \<Rightarrow> c0
        | Some c \<Rightarrow> c0\<lparr>VolumeMounts := VolumeMounts c0 @
            [\<lparr>VolumeMount.Name = ''nginx-config'', MountPath = ''/etc/nginx''\<rparr>]\<rparr>) # cs \<and>
     Volumes (depPodSpec dep') = Volumes (depPodSpec dep) @
       (case conf of None \<Rightarrow> []
        | Some c \<Rightarrow>
            if ConfigRef.Kind c = ConfigKindConfigMap then
              [\<lparr>Volume.Name = ''nginx-config'',
                VolumeSource =
                  \<lparr>ConfigMap = Some \<lparr>LocalObjectReference =
                     \<lparr>LocalObjectReference.Name = ConfigRef.Name c\<rparr>\<rparr>,
                   DownwardAPI = None, Secret = None\<rparr>\<rparr>]
            else if ConfigRef.Kind c = ConfigKindInline then
              [\<lparr>Volume.Name = ''nginx-config'',
                VolumeSource =
                  \<lparr>ConfigMap = None,
                   DownwardAPI = Some \<lparr>DownwardAPIVolumeSource.Items =
                     [\<lparr>DownwardAPIVolumeFile.Path = ''nginx.conf'',
                       FieldRef = Some \<lparr>FieldPath =
                         ''metadata.annotations['' @ [CHR 0x27] @ ConfigRef.Name c @
                         [CHR 0x27] @ '']''\<rparr>\<rparr>]\<rparr>,
                   Secret = None\<rparr>\<rparr>]
            else []) \<and>
     depTemplateAnnotations dep' =
       (case conf of None \<Rightarrow> depTemplateAnnotations dep
        | Some c \<Rightarrow>
            if ConfigRef.Kind c = ConfigKindInline then
              Some ((case depTemplateAnnotations dep of None \<Rightarrow> Map.empty | Some m \<Rightarrow> m)
                      (ConfigRef.Name c \<mapsto> Value c))
            else depTemplateAnnotations dep)"
proof (cases conf)
  case None
  then show ?thesis using assms by (simp add: setupConfig_def)
next
  case (Some c)
  then show ?thesis using assms kinds_distinct
    by (simp add: setupConfig_def Let_def path_defs emptyVolumeSource_def configMountPath_def)
qed

lemma setupTLS_obs:
  assumes "Containers (depPodSpec dep) = c0 # cs"
  shows "\<exists>dep'. setupTLS sec dep = Inr (map_option spec_normalizeTLS sec, dep') \<and>
     Deployment.ObjectMeta dep' = Deployment.ObjectMeta dep \<and>
     DeploymentSpec.Selector (Deployment.Spec dep') =
       DeploymentSpec.Selector (Deployment.Spec dep) \<and>
     Labels (PodTemplateSpec.ObjectMeta (Template (Deployment.Spec dep'))) =
       Labels (PodTemplateSpec.ObjectMeta (Template (Deployment.Spec dep))) \<and>
     depTemplateAnnotations dep' = depTemplateAnnotations dep \<and>
     Containers (depPodSpec dep') =
       (case sec of None \<Rightarrow> c0
        | Some s \<Rightarrow> c0
            \<lparr>Container.Ports := Container.Ports c0 @
               [\<lparr>ContainerPort.Name = ''https'', ContainerPort = 443,
                 ContainerPort.Protocol = ProtocolTCP\<rparr>],
             ReadinessProbe := Some \<lparr>Handler = \<lparr>HTTPGet = Some
               \<lparr>HTTPGetAction.Path = ''/'', HTTPGetAction.Port = FromString ''https'',
                Scheme = URISchemeHTTPS\<rparr>\<rparr>\<rparr>,
             VolumeMounts := VolumeMounts c0 @
               [\<lparr>VolumeMount.Name = ''nginx-certs'', MountPath = ''/etc/nginx/certs''\<rparr>]\<rparr>) # cs \<and>
     Volumes (depPodSpec dep') = Volumes (depPodSpec dep) @
       (case map_option spec_normalizeTLS sec of None \<Rightarrow> []
        | Some s \<Rightarrow>
            [\<lparr>Volume.Name = ''nginx-certs'',
              VolumeSource =
                \<lparr>ConfigMap = None, DownwardAPI = None,
                 Secret = Some
                   \<lparr>SecretVolumeSource.SecretName = TLSSecret.SecretName s,
                    SecretVolumeSource.Items =
                      [\<lparr>Key = KeyField s, KeyToPath.Path = KeyPath s\<rparr>,
                       \<lparr>Key = CertificateField s, KeyToPath.Path = CertificatePath s\<rparr>]\<rparr>\<rparr>\<rparr>])"
proof (cases sec)
  case None
  then show ?thesis using assms by (simp add: setupTLS_def)
next
  case (Some s)
  then show ?thesis using assms
    by (simp add: setupTLS_def Let_def path_defs emptyVolumeSource_def certMountPath_def
          configMountPath_def defaultHTTPSPortName_def spec_normalizeTLS_def
          valueOrDefault_def)
qed

lemma valueOrDefault_idem: "valueOrDefault (valueOrDefault v d) d = valueOrDefault v d"
  by (simp add: valueOrDefault_def)

lemma setupTLS_idem:
  "setupTLS sec dep = Inr (sec', dep') \<Longrightarrow> setupTLS sec' dep = Inr (sec', dep')"
  by (cases sec; cases "Containers (depPodSpec dep)")
     (auto simp: setupTLS_def Let_def valueOrDefault_idem)

lemma valueOrDefault_alt: "valueOrDefault v d = (if v = [] then d else v)"
  by (simp add: valueOrDefault_def)

lemma NewDeployment_run:
  "\<exists>dep1 dep2.
     setupConfig (Config (Nginx.Spec n))
       (deploymentLiteral (n\<lparr>Nginx.Spec := spec_normalize (Nginx.Spec n)\<rparr>)) = Inr dep1 \<and>
     setupTLS (NginxSpec.TLSSecret (Nginx.Spec n)) dep1 =
       Inr (map_option spec_normalizeTLS (NginxSpec.TLSSecret (Nginx.Spec n)), dep2) \<and>
     NewDeployment marshal n =
       (case marshal (spec_normalize (Nginx.Spec n)) of
          Inl err \<Rightarrow> Inl err
        | Inr j \<Rightarrow> Inr (dep2\<lparr>Deployment.ObjectMeta := (Deployment.ObjectMeta dep2)
                     \<lparr>Annotations := Some [generatedFromAnnotation \<mapsto> j]\<rparr>\<rparr>),
        n\<lparr>Nginx.Spec := spec_normalize (Nginx.Spec n)\<rparr>)"
proof -
  let ?n1 = "n\<lparr>Nginx.Spec := (Nginx.Spec n)
       \<lparr>NginxSpec.Image := valueOrDefault (NginxSpec.Image (Nginx.Spec n)) defaultNginxImage\<rparr>\<rparr>"
  let ?conf = "Config (Nginx.Spec n)"
  let ?sec = "NginxSpec.TLSSecret (Nginx.Spec n)"
  let ?n2 = "n\<lparr>Nginx.Spec := spec_normalize (Nginx.Spec n)\<rparr>"
  have n2: "?n1\<lparr>Nginx.Spec := (Nginx.Spec ?n1)
              \<lparr>TLSSecret := map_option spec_normalizeTLS ?sec\<rparr>\<rparr> = ?n2"
    by (simp add: spec_normalize_def valueOrDefault_alt defaultNginxImage_def)
  have lit: "deploymentLiteral ?n2 = deploymentLiteral ?n1"
    using literal_cong [where n = ?n1 and sec = "map_option spec_normalizeTLS ?sec"]
    by (simp only: n2)
  have conf1: "Config (Nginx.Spec ?n1) = ?conf"
    and sec1: "NginxSpec.TLSSecret (Nginx.Spec ?n1) = ?sec"
    by simp_all
  obtain c where c: "Containers (depPodSpec (deploymentLiteral ?n1)) = [c]"
    using literal_containers by blast
  from setupConfig_obs [OF c, of ?conf] obtain dep1 c1 where
    dep1: "setupConfig ?conf (deploymentLiteral ?n1) = Inr dep1"
    and c1: "Containers (depPodSpec dep1) = [c1]"
    and om1: "Deployment.ObjectMeta dep1 = Deployment.ObjectMeta (deploymentLiteral ?n1)"
    by blast
  from setupTLS_obs [OF c1, of ?sec] obtain dep2 where
    dep2: "setupTLS ?sec dep1 = Inr (map_option spec_normalizeTLS ?sec, dep2)"
    and om2: "Deployment.ObjectMeta dep2 = Deployment.ObjectMeta dep1"
    by blast
  have ann: "Annotations (Deployment.ObjectMeta dep2) = None"
    using om1 om2 literal_rest [of ?n1] by simp
  have set: "SetNginxSpec marshal (Deployment.ObjectMeta dep2) (Nginx.Spec ?n2) =
       (case marshal (spec_normalize (Nginx.Spec n)) of
          Inl err \<Rightarrow> (Some err, (Deployment.ObjectMeta dep2)\<lparr>Annotations := Some Map.empty\<rparr>)
        | Inr j \<Rightarrow> (None, (Deployment.ObjectMeta dep2)
                     \<lparr>Annotations := Some [generatedFromAnnotation \<mapsto> j]\<rparr>))"
    using ann by (simp add: SetNginxSpec_def Let_def split: sum.splits)
  have "NewDeployment marshal n =
     (case setupConfig (Config (Nginx.Spec ?n1)) (deploymentLiteral ?n1) of
           Inl p \<Rightarrow> (Inl p, ?n1)
         | Inr dep1 \<Rightarrow>
             (case setupTLS (NginxSpec.TLSSecret (Nginx.Spec ?n1)) dep1 of
                Inl p \<Rightarrow> (Inl p, ?n1)
              | Inr (secret, dep2) \<Rightarrow>
                  let n2 = ?n1\<lparr>Nginx.Spec := (Nginx.Spec ?n1)\<lparr>TLSSecret := secret\<rparr>\<rparr>
                  in case SetNginxSpec marshal (Deployment.ObjectMeta dep2) (Nginx.Spec n2) of
                       (Some err, om) \<Rightarrow> (Inl err, n2)
                     | (None, om) \<Rightarrow> (Inr (dep2\<lparr>Deployment.ObjectMeta := om\<rparr>), n2)))"
    unfolding NewDeployment_def Let_def ..
  also have "\<dots> = (case SetNginxSpec marshal (Deployment.ObjectMeta dep2) (Nginx.Spec ?n2) of
                       (Some err, om) \<Rightarrow> (Inl err, ?n2)
                     | (None, om) \<Rightarrow> (Inr (dep2\<lparr>Deployment.ObjectMeta := om\<rparr>), ?n2))"
    unfolding conf1 sec1 dep1 dep2 sum.case prod.case Let_def n2 ..
  also have "\<dots> = (case marshal (spec_normalize (Nginx.Spec n)) of
          Inl err \<Rightarrow> Inl err
        | Inr j \<Rightarrow> Inr (dep2\<lparr>Deployment.ObjectMeta := (Deployment.ObjectMeta dep2)
                     \<lparr>Annotations := Some [generatedFromAnnotation \<mapsto> j]\<rparr>\<rparr>), ?n2)"
    unfolding set by (simp split: sum.splits)
  finally show ?thesis using dep1 dep2 lit by auto
qed

lemma NewDeployment_obs:
  "\<exists>d0. NewDeployment marshal n =
       (case marshal (spec_normalize (Nginx.Spec n)) of
          Inl err \<Rightarrow> Inl err
        | Inr j \<Rightarrow> Inr (d0\<lparr>Deployment.ObjectMeta := (Deployment.ObjectMeta d0)
                     \<lparr>Annotations := Some [generatedFromAnnotation \<mapsto> j]\<rparr>\<rparr>),
        n\<lparr>Nginx.Spec := spec_normalize (Nginx.Spec n)\<rparr>) \<and>
     OwnerReferences (Deployment.ObjectMeta d0) = [NewControllerRef n nginxGroupVersionKind] \<and>
     DeploymentSpec.Selector (Deployment.Spec d0) =
       Some \<lparr>MatchLabels = Some (LabelsForNginx (ObjectMeta.Name (Nginx.ObjectMeta n)))\<rparr> \<and>
     Labels (PodTemplateSpec.ObjectMeta (Template (Deployment.Spec d0))) =
       Some (LabelsForNginx (ObjectMeta.Name (Nginx.ObjectMeta n))) \<and>
     depTemplateAnnotations d0 =
       (case Config (Nginx.Spec n) of None \<Rightarrow> None
        | Some c \<Rightarrow> if ConfigRef.Kind c = ConfigKindInline
                    then Some [ConfigRef.Name c \<mapsto> Value c] else None) \<and>
     (\<exists>c. Containers (depPodSpec d0) = [c] \<and>
        Container.Image c = NginxSpec.Image (spec_normalize (Nginx.Spec n)) \<and>
        ReadinessProbe c = Some \<lparr>Handler = \<lparr>HTTPGet = Some
          \<lparr>HTTPGetAction.Path = ''/'',
           HTTPGetAction.Port =
             FromString (if NginxSpec.TLSSecret (Nginx.Spec n) \<noteq> None then ''https'' else ''http''),
           Scheme = (if NginxSpec.TLSSecret (Nginx.Spec n) \<noteq> None
                     then URISchemeHTTPS else URISchemeHTTP)\<rparr>\<rparr>\<rparr> \<and>
        map ContainerPort.Name (Container.Ports c) =
          (if NginxSpec.TLSSecret (Nginx.Spec n) \<noteq> None then [''http'', ''https'']
           else [''http'']) \<and>
        VolumeMounts c =
          (case Config (Nginx.Spec n) of None \<Rightarrow> []
           | Some _ \<Rightarrow> [\<lparr>VolumeMount.Name = ''nginx-config'', MountPath = ''/etc/nginx''\<rparr>]) @
          (case NginxSpec.TLSSecret (Nginx.Spec n) of None \<Rightarrow> []
           | Some _ \<Rightarrow>
               [\<lparr>VolumeMount.Name = ''nginx-certs'', MountPath = ''/etc/nginx/certs''\<rparr>])) \<and>
     Volumes (depPodSpec d0) =
       (case Config (Nginx.Spec n) of None \<Rightarrow> []
        | Some c \<Rightarrow>
            if ConfigRef.Kind c = ConfigKindConfigMap then
              [\<lparr>Volume.Name = ''nginx-config'',
                VolumeSource =
                  \<lparr>ConfigMap = Some \<lparr>LocalObjectReference =
                     \<lparr>LocalObjectReference.Name = ConfigRef.Name c\<rparr>\<rparr>,
                   DownwardAPI = None, Secret = None\<rparr>\<rparr>]
            else if ConfigRef.Kind c = ConfigKindInline then
              [\<lparr>Volume.Name = ''nginx-config'',
                VolumeSource =
                  \<lparr>ConfigMap = None,
                   DownwardAPI = Some \<lparr>DownwardAPIVolumeSource.Items =
                     [\<lparr>DownwardAPIVolumeFile.Path = ''nginx.conf'',
                       FieldRef = Some \<lparr>FieldPath =
                         ''metadata.annotations['' @ [CHR 0x27] @ ConfigRef.Name c @
                         [CHR 0x27] @ '']''\<rparr>\<rparr>]\<rparr>,
                   Secret = None\<rparr>\<rparr>]
            else []) @
       (case NginxSpec.TLSSecret (spec_normalize (Nginx.Spec n)) of None \<Rightarrow> []
        | Some s \<Rightarrow>
            [\<lparr>Volume.Name = ''nginx-certs'',
              VolumeSource =
                \<lparr>ConfigMap = None, DownwardAPI = None,
                 Secret = Some
                   \<lparr>SecretVolumeSource.SecretName = TLSSecret.SecretName s,
                    SecretVolumeSource.Items =
                      [\<lparr>Key = KeyField s, KeyToPath.Path = KeyPath s\<rparr>,
                       \<lparr>Key = CertificateField s, KeyToPath.Path = CertificatePath s\<rparr>]\<rparr>\<rparr>\<rparr>])"
proof -
  let ?n2 = "n\<lparr>Nginx.Spec := spec_normalize (Nginx.Spec n)\<rparr>"
  let ?conf = "Config (Nginx.Spec n)"
  let ?sec = "NginxSpec.TLSSecret (Nginx.Spec n)"
  from NewDeployment_run [of n marshal] obtain dep1 dep2 where
    dep1: "setupConfig ?conf (deploymentLiteral ?n2) = Inr dep1"
    and dep2: "setupTLS ?sec dep1 = Inr (map_option spec_normalizeTLS ?sec, dep2)"
    and run: "NewDeployment marshal n =
       (case marshal (spec_normalize (Nginx.Spec n)) of
          Inl err \<Rightarrow> Inl err
        | Inr j \<Rightarrow> Inr (dep2\<lparr>Deployment.ObjectMeta := (Deployment.ObjectMeta dep2)
                     \<lparr>Annotations := Some [generatedFromAnnotation \<mapsto> j]\<rparr>\<rparr>), ?n2)"
    by blast
  obtain c0 where c0: "Containers (depPodSpec (deploymentLiteral ?n2)) = [c0]"
    and c0_image: "Container.Image c0 = NginxSpec.Image (spec_normalize (Nginx.Spec n))"
    and c0_probe: "ReadinessProbe c0 = Some \<lparr>Handler = \<lparr>HTTPGet = Some
         \<lparr>HTTPGetAction.Path = ''/'', HTTPGetAction.Port = FromString ''http'',
          Scheme = URISchemeHTTP\<rparr>\<rparr>\<rparr>"
    and c0_ports: "map ContainerPort.Name (Container.Ports c0) = [''http'']"
    and c0_mounts: "VolumeMounts c0 = []"
    using literal_containers [of ?n2] by simp
  define c1 where "c1 = (case ?conf of None \<Rightarrow> c0
        | Some c \<Rightarrow> c0\<lparr>VolumeMounts := VolumeMounts c0 @
            [\<lparr>VolumeMount.Name = ''nginx-config'', MountPath = ''/etc/nginx''\<rparr>]\<rparr>)"
  define c2 where "c2 = (case ?sec of None \<Rightarrow> c1
        | Some s \<Rightarrow> c1
            \<lparr>Container.Ports := Container.Ports c1 @
               [\<lparr>ContainerPort.Name = ''https'', ContainerPort = 443,
                 ContainerPort.Protocol = ProtocolTCP\<rparr>],
             ReadinessProbe := Some \<lparr>Handler = \<lparr>HTTPGet = Some
               \<lparr>HTTPGetAction.Path = ''/'', HTTPGetAction.Port = FromString ''https'',
                Scheme = URISchemeHTTPS\<rparr>\<rparr>\<rparr>,
             VolumeMounts := VolumeMounts c1 @
               [\<lparr>VolumeMount.Name = ''nginx-certs'', MountPath = ''/etc/nginx/certs''\<rparr>]\<rparr>)"
  note lit = literal_rest [of ?n2]
  note step1 = setupConfig_obs [OF c0, of ?conf, unfolded dep1, folded c1_def]
  then have cs1: "Containers (depPodSpec dep1) = [c1]" by simp
  note step2 = setupTLS_obs [OF cs1, of ?sec, unfolded dep2, folded c2_def]
  have frame: "OwnerReferences (Deployment.ObjectMeta dep2) =
       [NewControllerRef n nginxGroupVersionKind]"
    "DeploymentSpec.Selector (Deployment.Spec dep2) =
       Some \<lparr>MatchLabels = Some (LabelsForNginx (ObjectMeta.Name (Nginx.ObjectMeta n)))\<rparr>"
    "Labels (PodTemplateSpec.ObjectMeta (Template (Deployment.Spec dep2))) =
       Some (LabelsForNginx (ObjectMeta.Name (Nginx.ObjectMeta n)))"
    using step1 step2 lit by (simp_all add: NewControllerRef_def)
  have anns: "depTemplateAnnotations dep2 =
       (case ?conf of None \<Rightarrow> None
        | Some c \<Rightarrow> if ConfigRef.Kind c = ConfigKindInline
                    then Some [ConfigRef.Name c \<mapsto> Value c] else None)"
    using step1 step2 lit by (simp split: option.splits)
  have sec_n: "NginxSpec.TLSSecret (spec_normalize (Nginx.Spec n)) =
      map_option spec_normalizeTLS ?sec"
    by (simp add: spec_normalize_def)
  have vols: "Volumes (depPodSpec dep2) = Volumes (depPodSpec dep1) @
       (case map_option spec_normalizeTLS ?sec of None \<Rightarrow> []
        | Some s \<Rightarrow>
            [\<lparr>Volume.Name = ''nginx-certs'',
              VolumeSource =
                \<lparr>ConfigMap = None, DownwardAPI = None,
                 Secret = Some
                   \<lparr>SecretVolumeSource.SecretName = TLSSecret.SecretName s,
                    SecretVolumeSource.Items =
                      [\<lparr>Key = KeyField s, KeyToPath.Path = KeyPath s\<rparr>,
                       \<lparr>Key = CertificateField s, KeyToPath.Path = CertificatePath s\<rparr>]\<rparr>\<rparr>\<rparr>])"
    using step2 by simp
  have vols1: "Volumes (depPodSpec dep1) =
       (case ?conf of None \<Rightarrow> []
        | Some c \<Rightarrow>
            if ConfigRef.Kind c = ConfigKindConfigMap then
              [\<lparr>Volume.Name = ''nginx-config'',
                VolumeSource =
                  \<lparr>ConfigMap = Some \<lparr>LocalObjectReference =
                     \<lparr>LocalObjectReference.Name = ConfigRef.Name c\<rparr>\<rparr>,
                   DownwardAPI = None, Secret = None\<rparr>\<rparr>]
            else if ConfigRef.Kind c = ConfigKindInline then
              [\<lparr>Volume.Name = ''nginx-config'',
                VolumeSource =
                  \<lparr>ConfigMap = None,
                   DownwardAPI = Some \<lparr>DownwardAPIVolumeSource.Items =
                     [\<lparr>DownwardAPIVolumeFile.Path = ''nginx.conf'',
                       FieldRef = Some \<lparr>FieldPath =
                         ''metadata.annotations['' @ [CHR 0x27] @ ConfigRef.Name c @
                         [CHR 0x27] @ '']''\<rparr>\<rparr>]\<rparr>,
                   Secret = None\<rparr>\<rparr>]
            else [])"
    using step1 lit by simp
  have cs2: "Containers (depPodSpec dep2) = [c2]"
    using step2 by simp
  have c2_props: "Container.Image c2 = NginxSpec.Image (spec_normalize (Nginx.Spec n)) \<and>
        ReadinessProbe c2 = Some \<lparr>Handler = \<lparr>HTTPGet = Some
          \<lparr>HTTPGetAction.Path = ''/'',
           HTTPGetAction.Port =
             FromString (if ?sec \<noteq> None then ''https'' else ''http''),
           Scheme = (if ?sec \<noteq> None then URISchemeHTTPS else URISchemeHTTP)\<rparr>\<rparr>\<rparr> \<and>
        map ContainerPort.Name (Container.Ports c2) =
          (if ?sec \<noteq> None then [''http'', ''https''] else [''http'']) \<and>
        VolumeMounts c2 =
          (case ?conf of None \<Rightarrow> []
           | Some _ \<Rightarrow> [\<lparr>VolumeMount.Name = ''nginx-config'', MountPath = ''/etc/nginx''\<rparr>]) @
          (case ?sec of None \<Rightarrow> []
           | Some _ \<Rightarrow>
               [\<lparr>VolumeMount.Name = ''nginx-certs'', MountPath = ''/etc/nginx/certs''\<rparr>])"
    using c0_image c0_probe c0_ports c0_mounts unfolding c2_def c1_def
    by (cases ?conf; cases ?sec) simp_all
  show ?thesis
    using run frame anns cs2 c2_props vols vols1 sec_n
    by (intro exI [of _ dep2]) simp
qed

lemma meta_update_obs:
  "depPodSpec (d\<lparr>Deployment.ObjectMeta := om\<rparr>) = depPodSpec d"
  "depTemplateAnnotations (d\<lparr>Deployment.ObjectMeta := om\<rparr>) = depTemplateAnnotations d"
  by (simp_all add: depPodSpec_def depTemplateAnnotations_def)

lemma example_normalized: "spec_normalize exampleSpec = exampleResolvedSpec"
  by (simp add: spec_normalize_def spec_normalizeTLS_def Let_def exampleSpec_def
        exampleResolvedSpec_def)

lemma example_marshal: "exampleMarshal exampleResolvedSpec = Inr exampleJSON"
  by (simp add: exampleMarshal_def)

lemma example_unmarshal: "exampleUnmarshal exampleJSON = Inr exampleResolvedSpec"
  by (simp add: exampleUnmarshal_def)

lemma example_run:
  "NewDeployment exampleMarshal exampleNginx =
     (Inr exampleDeployment, exampleNginx\<lparr>Nginx.Spec := exampleResolvedSpec\<rparr>)"
proof -
  have spec: "Nginx.Spec exampleNginx = exampleSpec"
    by (simp add: exampleNginx_def)
  have conf: "Config exampleSpec =
      Some \<lparr>ConfigRef.Kind = ConfigKindInline, ConfigRef.Name = ''custom'',
            Value = ''worker_processes 2;''\<rparr>"
    and sec: "NginxSpec.TLSSecret exampleSpec =
      Some \<lparr>TLSSecret.SecretName = ''mysecret'', KeyField = '''',
            CertificateField = '''', KeyPath = '''', CertificatePath = ''''\<rparr>"
    by (simp_all add: exampleSpec_def)
  show ?thesis
    unfolding NewDeployment_def Let_def
    by (simp add: spec conf sec setupConfig_def setupTLS_def SetNginxSpec_def Let_def
          path_defs deploymentLiteral_def emptyObjectMeta_def emptyVolumeSource_def
          NewControllerRef_def nginxGroupVersionKind_def SchemeGroupVersion_def
          GroupVersionString_def LabelsForNginx_def valueOrDefault_def
          defaultNginxImage_def defaultHTTPPortName_def defaultHTTPSPortName_def
          configMountPath_def certMountPath_def generatedFromAnnotation_def
          ConfigKindInline_def ConfigKindConfigMap_def
          exampleNginx_def exampleSpec_def exampleResolvedSpec_def exampleMarshal_def
          exampleDeployment_def exampleContainer_def exampleVolumes_def)
qed

section \<open>The claims\<close>

text \<open>
  C2. The annotation of the deployment that \<open>NewDeployment\<close> returns holds the
  encoding of the spec as it is after \<open>setupConfig\<close> and \<open>setupTLS\<close> have run: the
  spec the function leaves in the resource, which is the normalized spec. Its image is
  not empty, the four TLS names are not empty, and the container and the secret volume
  of the deployment carry the same values. When the library decodes what it encoded,
  \<open>ExtractNginxSpec\<close> on the deployment returns that spec.
\<close>

theorem annotation_holds_resolved_spec:
  assumes "NewDeployment marshal n = (Inr d, n')"
  shows "n' = n\<lparr>Nginx.Spec := spec_normalize (Nginx.Spec n)\<rparr> \<and>
         (\<exists>j. marshal (Nginx.Spec n') = Inr j \<and>
            Annotations (Deployment.ObjectMeta d) = Some [generatedFromAnnotation \<mapsto> j] \<and>
            (unmarshal j = Inr (Nginx.Spec n') \<longrightarrow>
               ExtractNginxSpec unmarshal (Deployment.ObjectMeta d) = Inr (Nginx.Spec n'))) \<and>
         NginxSpec.Image (Nginx.Spec n') \<noteq> '''' \<and>
         (\<exists>c. Containers (depPodSpec d) = [c] \<and>
              Container.Image c = NginxSpec.Image (Nginx.Spec n')) \<and>
         (\<forall>s. NginxSpec.TLSSecret (Nginx.Spec n') = Some s \<longrightarrow>
              KeyField s \<noteq> '''' \<and> CertificateField s \<noteq> '''' \<and>
              KeyPath s \<noteq> '''' \<and> CertificatePath s \<noteq> '''' \<and>
              (\<exists>vs. Volumes (depPodSpec d) = vs @
                 [\<lparr>Volume.Name = ''nginx-certs'',
                   VolumeSource =
                     \<lparr>ConfigMap = None, DownwardAPI = None,
                      Secret = Some
                        \<lparr>SecretVolumeSource.SecretName = TLSSecret.SecretName s,
                         SecretVolumeSource.Items =
                           [\<lparr>Key = KeyField s, KeyToPath.Path = KeyPath s\<rparr>,
                            \<lparr>Key = CertificateField s,
                             KeyToPath.Path = CertificatePath s\<rparr>]\<rparr>\<rparr>\<rparr>]))"
proof -
  let ?s = "spec_normalize (Nginx.Spec n)"
  from NewDeployment_obs [of marshal n] obtain d0 where
    run: "NewDeployment marshal n =
       (case marshal ?s of
          Inl err \<Rightarrow> Inl err
        | Inr j \<Rightarrow> Inr (d0\<lparr>Deployment.ObjectMeta := (Deployment.ObjectMeta d0)
                     \<lparr>Annotations := Some [generatedFromAnnotation \<mapsto> j]\<rparr>\<rparr>),
        n\<lparr>Nginx.Spec := ?s\<rparr>)"
    and cont: "\<exists>c. Containers (depPodSpec d0) = [c] \<and> Container.Image c = NginxSpec.Image ?s"
    and vols: "\<exists>vs. Volumes (depPodSpec d0) = vs @
       (case NginxSpec.TLSSecret ?s of None \<Rightarrow> []
        | Some s \<Rightarrow>
            [\<lparr>Volume.Name = ''nginx-certs'',
              VolumeSource =
                \<lparr>ConfigMap = None, DownwardAPI = None,
                 Secret = Some
                   \<lparr>SecretVolumeSource.SecretName = TLSSecret.SecretName s,
                    SecretVolumeSource.Items =
                      [\<lparr>Key = KeyField s, KeyToPath.Path = KeyPath s\<rparr>,
                       \<lparr>Key = CertificateField s, KeyToPath.Path = CertificatePath s\<rparr>]\<rparr>\<rparr>\<rparr>])"
    by blast
  from assms run obtain j where n': "n' = n\<lparr>Nginx.Spec := ?s\<rparr>"
    and j: "marshal ?s = Inr j"
    and d: "d = d0\<lparr>Deployment.ObjectMeta := (Deployment.ObjectMeta d0)
                     \<lparr>Annotations := Some [generatedFromAnnotation \<mapsto> j]\<rparr>\<rparr>"
    by (auto split: sum.splits)
  have spec': "Nginx.Spec n' = ?s" by (simp add: n')
  have image: "NginxSpec.Image ?s \<noteq> ''''"
    by (simp add: spec_normalize_def)
  have names: "KeyField s \<noteq> '''' \<and> CertificateField s \<noteq> '''' \<and>
      KeyPath s \<noteq> '''' \<and> CertificatePath s \<noteq> ''''"
    if "NginxSpec.TLSSecret ?s = Some s" for s
    using that spec_normalizeTLS_nonempty by (auto simp: spec_normalize_def)
  have decoded: "ExtractNginxSpec unmarshal (Deployment.ObjectMeta d) = Inr ?s"
    if "unmarshal j = Inr ?s"
    using that by (simp add: d ExtractNginxSpec_def mapLookup_def)
  show ?thesis
    unfolding spec'
    using n' j image names decoded cont vols
    by (auto simp: d meta_update_obs)
qed

theorem annotation_holds_resolved_spec_witness:
  "NewDeployment exampleMarshal exampleNginx =
     (Inr exampleDeployment, exampleNginx\<lparr>Nginx.Spec := exampleResolvedSpec\<rparr>) \<and>
   Annotations (Deployment.ObjectMeta exampleDeployment) =
     Some [generatedFromAnnotation \<mapsto> exampleJSON] \<and>
   exampleMarshal exampleResolvedSpec = Inr exampleJSON \<and>
   ExtractNginxSpec exampleUnmarshal (Deployment.ObjectMeta exampleDeployment) =
     Inr exampleResolvedSpec \<and>
   NginxSpec.TLSSecret exampleResolvedSpec =
     Some \<lparr>TLSSecret.SecretName = ''mysecret'', KeyField = ''tls.key'',
           CertificateField = ''tls.crt'', KeyPath = ''tls.key'',
           CertificatePath = ''tls.crt''\<rparr>"
  using annotation_holds_resolved_spec [OF example_run, of exampleUnmarshal]
    example_run example_marshal example_unmarshal
  by (auto simp: exampleResolvedSpec_def)


text \<open>
  C3. TLS presence. The service of \<open>NewService\<close> has the HTTP port and, exactly when
  the TLS secret reference is not nil, a second port, HTTPS on 443. The deployment that
  \<open>NewDeployment\<close> returns has one container; its readiness probe (one pointer field)
  is set, and it targets the port "https" with the scheme HTTPS when the TLS reference is
  not nil and the port "http" with the scheme HTTP otherwise; the container has the
  port "https" exactly in the first case.
\<close>

theorem tls_presence:
  "(length (ServiceSpec.Ports (Service.Spec (NewService n))) = 2 \<longleftrightarrow>
      NginxSpec.TLSSecret (Nginx.Spec n) \<noteq> None) \<and>
   ServiceSpec.Ports (Service.Spec (NewService n)) =
     \<lparr>ServicePort.Name = ''http'', ServicePort.Protocol = ProtocolTCP,
      TargetPort = FromString ''http'', ServicePort.Port = 80\<rparr> #
     (if NginxSpec.TLSSecret (Nginx.Spec n) \<noteq> None
      then [\<lparr>ServicePort.Name = ''https'', ServicePort.Protocol = ProtocolTCP,
             TargetPort = FromString ''https'', ServicePort.Port = 443\<rparr>]
      else []) \<and>
   (fst (NewDeployment marshal n) = Inr d \<longrightarrow>
      (\<exists>c. Containers (depPodSpec d) = [c] \<and>
           ReadinessProbe c =
             Some \<lparr>Handler = \<lparr>HTTPGet = Some
               \<lparr>HTTPGetAction.Path = ''/'',
                HTTPGetAction.Port =
                  FromString (if NginxSpec.TLSSecret (Nginx.Spec n) \<noteq> None
                              then ''https'' else ''http''),
                Scheme = (if NginxSpec.TLSSecret (Nginx.Spec n) \<noteq> None
                          then URISchemeHTTPS else URISchemeHTTP)\<rparr>\<rparr>\<rparr> \<and>
           map ContainerPort.Name (Container.Ports c) =
             (if NginxSpec.TLSSecret (Nginx.Spec n) \<noteq> None
              then [''http'', ''https''] else [''http''])))"
proof -
  let ?tls = "NginxSpec.TLSSecret (Nginx.Spec n) \<noteq> None"
  have ports: "ServiceSpec.Ports (Service.Spec (NewService n)) =
     \<lparr>ServicePort.Name = ''http'', ServicePort.Protocol = ProtocolTCP,
      TargetPort = FromString ''http'', ServicePort.Port = 80\<rparr> #
     (if ?tls
      then [\<lparr>ServicePort.Name = ''https'', ServicePort.Protocol = ProtocolTCP,
             TargetPort = FromString ''https'', ServicePort.Port = 443\<rparr>]
      else [])"
    by (simp add: NewService_def Let_def defaultHTTPPortName_def defaultHTTPSPortName_def)
  have probe: "\<exists>c. Containers (depPodSpec d) = [c] \<and>
           ReadinessProbe c =
             Some \<lparr>Handler = \<lparr>HTTPGet = Some
               \<lparr>HTTPGetAction.Path = ''/'',
                HTTPGetAction.Port = FromString (if ?tls then ''https'' else ''http''),
                Scheme = (if ?tls then URISchemeHTTPS else URISchemeHTTP)\<rparr>\<rparr>\<rparr> \<and>
           map ContainerPort.Name (Container.Ports c) =
             (if ?tls then [''http'', ''https''] else [''http''])"
    if ok: "fst (NewDeployment marshal n) = Inr d"
  proof -
    from NewDeployment_obs [of marshal n] obtain d0 where
      run: "NewDeployment marshal n =
         (case marshal (spec_normalize (Nginx.Spec n)) of
            Inl err \<Rightarrow> Inl err
          | Inr j \<Rightarrow> Inr (d0\<lparr>Deployment.ObjectMeta := (Deployment.ObjectMeta d0)
                       \<lparr>Annotations := Some [generatedFromAnnotation \<mapsto> j]\<rparr>\<rparr>),
          n\<lparr>Nginx.Spec := spec_normalize (Nginx.Spec n)\<rparr>)"
      and cont: "\<exists>c. Containers (depPodSpec d0) = [c] \<and>
           ReadinessProbe c =
             Some \<lparr>Handler = \<lparr>HTTPGet = Some
               \<lparr>HTTPGetAction.Path = ''/'',
                HTTPGetAction.Port = FromString (if ?tls then ''https'' else ''http''),
                Scheme = (if ?tls then URISchemeHTTPS else URISchemeHTTP)\<rparr>\<rparr>\<rparr> \<and>
           map ContainerPort.Name (Container.Ports c) =
             (if ?tls then [''http'', ''https''] else [''http''])"
      by blast
    from ok run obtain j where
      "d = d0\<lparr>Deployment.ObjectMeta := (Deployment.ObjectMeta d0)
                       \<lparr>Annotations := Some [generatedFromAnnotation \<mapsto> j]\<rparr>\<rparr>"
      by (auto split: sum.splits)
    with cont show ?thesis by (simp add: meta_update_obs)
  qed
  from ports have "length (ServiceSpec.Ports (Service.Spec (NewService n))) = 2 \<longleftrightarrow> ?tls"
    by simp
  with ports probe show ?thesis by blast
qed

theorem tls_presence_witness:
  "NginxSpec.TLSSecret (Nginx.Spec exampleNginx) \<noteq> None \<and>
   length (ServiceSpec.Ports (Service.Spec (NewService exampleNginx))) = 2 \<and>
   fst (NewDeployment exampleMarshal exampleNginx) = Inr exampleDeployment \<and>
   Containers (depPodSpec exampleDeployment) = [exampleContainer] \<and>
   ReadinessProbe exampleContainer =
     Some \<lparr>Handler = \<lparr>HTTPGet = Some
       \<lparr>HTTPGetAction.Path = ''/'', HTTPGetAction.Port = FromString ''https'',
        Scheme = URISchemeHTTPS\<rparr>\<rparr>\<rparr>"
proof -
  have tls: "NginxSpec.TLSSecret (Nginx.Spec exampleNginx) \<noteq> None"
    by (simp add: exampleNginx_def exampleSpec_def)
  have ok: "fst (NewDeployment exampleMarshal exampleNginx) = Inr exampleDeployment"
    by (simp add: example_run)
  have c: "Containers (depPodSpec exampleDeployment) = [exampleContainer]"
    by (simp add: exampleDeployment_def depPodSpec_def)
  from tls_presence [of exampleNginx exampleMarshal exampleDeployment] tls ok c
  show ?thesis by simp
qed





text \<open>
  C5. Labels and selectors. The labels of the pod template and the match labels of the
  selector of the deployment that \<open>NewDeployment\<close> returns, and the selector of the
  service of \<open>NewService\<close> (built before or after \<open>NewDeployment\<close> has written the
  defaults into the resource), are the map with "nginx_cr" bound to the resource's name
  and "app" bound to "nginx", which is what \<open>LabelsForNginx\<close> returns.
\<close>

theorem labels_selectors_agree:
  "fst (NewDeployment marshal n) = Inr d \<Longrightarrow>
     LabelsForNginx (ObjectMeta.Name (Nginx.ObjectMeta n)) =
       [''nginx_cr'' \<mapsto> ObjectMeta.Name (Nginx.ObjectMeta n), ''app'' \<mapsto> ''nginx''] \<and>
     Labels (PodTemplateSpec.ObjectMeta (Template (Deployment.Spec d))) =
       Some [''nginx_cr'' \<mapsto> ObjectMeta.Name (Nginx.ObjectMeta n), ''app'' \<mapsto> ''nginx''] \<and>
     DeploymentSpec.Selector (Deployment.Spec d) =
       Some \<lparr>MatchLabels =
         Some [''nginx_cr'' \<mapsto> ObjectMeta.Name (Nginx.ObjectMeta n), ''app'' \<mapsto> ''nginx'']\<rparr> \<and>
     ServiceSpec.Selector (Service.Spec (NewService n)) =
       Some [''nginx_cr'' \<mapsto> ObjectMeta.Name (Nginx.ObjectMeta n), ''app'' \<mapsto> ''nginx''] \<and>
     ServiceSpec.Selector (Service.Spec (NewService (snd (NewDeployment marshal n)))) =
       Some [''nginx_cr'' \<mapsto> ObjectMeta.Name (Nginx.ObjectMeta n), ''app'' \<mapsto> ''nginx'']"
proof -
  assume ok: "fst (NewDeployment marshal n) = Inr d"
  let ?labels = "LabelsForNginx (ObjectMeta.Name (Nginx.ObjectMeta n))"
  from NewDeployment_obs [of marshal n] obtain d0 where
    run: "NewDeployment marshal n =
       (case marshal (spec_normalize (Nginx.Spec n)) of
          Inl err \<Rightarrow> Inl err
        | Inr j \<Rightarrow> Inr (d0\<lparr>Deployment.ObjectMeta := (Deployment.ObjectMeta d0)
                     \<lparr>Annotations := Some [generatedFromAnnotation \<mapsto> j]\<rparr>\<rparr>),
        n\<lparr>Nginx.Spec := spec_normalize (Nginx.Spec n)\<rparr>)"
    and sel: "DeploymentSpec.Selector (Deployment.Spec d0) = Some \<lparr>MatchLabels = Some ?labels\<rparr>"
    and lab: "Labels (PodTemplateSpec.ObjectMeta (Template (Deployment.Spec d0))) = Some ?labels"
    by blast
  from ok run obtain j where
    d: "d = d0\<lparr>Deployment.ObjectMeta := (Deployment.ObjectMeta d0)
                     \<lparr>Annotations := Some [generatedFromAnnotation \<mapsto> j]\<rparr>\<rparr>"
    by (auto split: sum.splits)
  have snd_run: "snd (NewDeployment marshal n) = n\<lparr>Nginx.Spec := spec_normalize (Nginx.Spec n)\<rparr>"
    by (simp add: run)
  have svc: "ServiceSpec.Selector (Service.Spec (NewService m)) =
      Some (LabelsForNginx (ObjectMeta.Name (Nginx.ObjectMeta m)))" for m :: "('a, 'b) Nginx"
    by (simp add: NewService_def Let_def)
  have "?labels = [''nginx_cr'' \<mapsto> ObjectMeta.Name (Nginx.ObjectMeta n), ''app'' \<mapsto> ''nginx'']"
    by (simp add: LabelsForNginx_def)
  with sel lab svc [of n] svc [of "snd (NewDeployment marshal n)"] show ?thesis
    by (simp add: d snd_run)
qed

theorem labels_selectors_agree_witness:
  "fst (NewDeployment exampleMarshal exampleNginx) = Inr exampleDeployment \<and>
   Labels (PodTemplateSpec.ObjectMeta (Template (Deployment.Spec exampleDeployment))) =
     Some [''nginx_cr'' \<mapsto> ''web'', ''app'' \<mapsto> ''nginx''] \<and>
   ServiceSpec.Selector (Service.Spec (NewService exampleNginx)) =
     Some [''nginx_cr'' \<mapsto> ''web'', ''app'' \<mapsto> ''nginx'']"
proof -
  have ok: "fst (NewDeployment exampleMarshal exampleNginx) = Inr exampleDeployment"
    by (simp add: example_run)
  have name: "ObjectMeta.Name (Nginx.ObjectMeta exampleNginx) = ''web''"
    by (simp add: exampleNginx_def)
  from labels_selectors_agree [OF ok] ok show ?thesis
    unfolding name by simp
qed


text \<open>
  C6. The two failures of \<open>ExtractNginxSpec\<close>. When the object has no generated-from
  annotation (the map is nil or lacks the key) the function returns the error "missing
  ... annotation in deployment" and no spec. When the annotation is there and the
  library cannot decode it, the function returns the error "failed to unmarshal nginx
  from annotation: ..." followed by the library's message. When the library decodes it,
  the function returns the decoded spec. The two error values are never equal, whatever
  the library's message, so a caller can tell them apart.
\<close>

theorem extract_error_conditions:
  "(mapLookup (Annotations om) generatedFromAnnotation = None \<longrightarrow>
      ExtractNginxSpec unmarshal om =
        Inl (Error (''missing '' @ [CHR 0x22] @ ''nginx.tsuru.io/generated-from'' @ [CHR 0x22] @
                    '' annotation in deployment''))) \<and>
   (\<forall>ann err. mapLookup (Annotations om) generatedFromAnnotation = Some ann \<and>
        unmarshal ann = Inl err \<longrightarrow>
      ExtractNginxSpec unmarshal om =
        Inl (Error (''failed to unmarshal nginx from annotation: '' @ errorMessage err))) \<and>
   (\<forall>ann spec. mapLookup (Annotations om) generatedFromAnnotation = Some ann \<and>
        unmarshal ann = Inr spec \<longrightarrow> ExtractNginxSpec unmarshal om = Inr spec) \<and>
   (\<forall>m. Error (''missing '' @ [CHR 0x22] @ ''nginx.tsuru.io/generated-from'' @ [CHR 0x22] @
                 '' annotation in deployment'') \<noteq>
        Error (''failed to unmarshal nginx from annotation: '' @ m))"
  by (simp add: ExtractNginxSpec_def fmtQuote_def generatedFromAnnotation_def)

theorem extract_error_conditions_witness:
  "mapLookup (Annotations emptyObjectMeta) generatedFromAnnotation = None \<and>
   ExtractNginxSpec exampleUnmarshal emptyObjectMeta =
     Inl (Error (''missing '' @ [CHR 0x22] @ ''nginx.tsuru.io/generated-from'' @ [CHR 0x22] @
                 '' annotation in deployment'')) \<and>
   mapLookup (Annotations (emptyObjectMeta
       \<lparr>Annotations := Some [generatedFromAnnotation \<mapsto> ''{'']\<rparr>))
     generatedFromAnnotation = Some ''{'' \<and>
   exampleUnmarshal ''{'' = Inl (Error ''invalid character'') \<and>
   ExtractNginxSpec exampleUnmarshal
     (emptyObjectMeta\<lparr>Annotations := Some [generatedFromAnnotation \<mapsto> ''{'']\<rparr>) =
     Inl (Error ''failed to unmarshal nginx from annotation: invalid character'') \<and>
   ExtractNginxSpec exampleUnmarshal (Deployment.ObjectMeta exampleDeployment) =
     Inr exampleResolvedSpec"
proof -
  let ?om = "emptyObjectMeta\<lparr>Annotations := Some [generatedFromAnnotation \<mapsto> ''{'']\<rparr>"
  have a: "mapLookup (Annotations emptyObjectMeta) generatedFromAnnotation = None"
    by (simp add: mapLookup_def emptyObjectMeta_def)
  have b: "mapLookup (Annotations ?om) generatedFromAnnotation = Some ''{''"
    by (simp add: mapLookup_def)
  have c: "exampleUnmarshal ''{'' = Inl (Error ''invalid character'')"
    by (simp add: exampleUnmarshal_def exampleJSON_def)
  have d: "mapLookup (Annotations (Deployment.ObjectMeta exampleDeployment))
      generatedFromAnnotation = Some exampleJSON"
    by (simp add: mapLookup_def exampleDeployment_def generatedFromAnnotation_def)
  from extract_error_conditions [of emptyObjectMeta exampleUnmarshal]
    extract_error_conditions [of ?om exampleUnmarshal]
    extract_error_conditions [of "Deployment.ObjectMeta exampleDeployment" exampleUnmarshal]
    a b c d example_unmarshal
  show ?thesis by simp
qed


text \<open>
  C7. Default filling. The spec that \<open>NewDeployment\<close> leaves in the resource is the
  normalized spec of the specification. Field by field: an empty image becomes
  "nginx:latest"; in a TLS reference an empty key field becomes "tls.key", an empty
  certificate field "tls.crt", an empty key path the resolved key field, an empty
  certificate path the resolved certificate field, so a reference with only the secret
  name gets "tls.key", "tls.crt", "tls.key", "tls.crt"; a field that is not empty, the
  secret name, the replicas, the config reference, the pod template and the metadata
  are unchanged.
\<close>

theorem normalization_defaults:
  assumes "snd (NewDeployment marshal n) = n'"
  shows "n' = n\<lparr>Nginx.Spec := spec_normalize (Nginx.Spec n)\<rparr> \<and>
         NginxSpec.Image (Nginx.Spec n') =
           (if NginxSpec.Image (Nginx.Spec n) = '''' then ''nginx:latest''
            else NginxSpec.Image (Nginx.Spec n)) \<and>
         (NginxSpec.TLSSecret (Nginx.Spec n) = None \<longrightarrow>
            NginxSpec.TLSSecret (Nginx.Spec n') = None) \<and>
         (\<forall>s. NginxSpec.TLSSecret (Nginx.Spec n) = Some s \<longrightarrow>
            (\<exists>s'. NginxSpec.TLSSecret (Nginx.Spec n') = Some s' \<and>
               TLSSecret.SecretName s' = TLSSecret.SecretName s \<and>
               KeyField s' = (if KeyField s = '''' then ''tls.key'' else KeyField s) \<and>
               CertificateField s' =
                 (if CertificateField s = '''' then ''tls.crt'' else CertificateField s) \<and>
               KeyPath s' = (if KeyPath s = '''' then KeyField s' else KeyPath s) \<and>
               CertificatePath s' =
                 (if CertificatePath s = '''' then CertificateField s'
                  else CertificatePath s))) \<and>
         (\<forall>sn. NginxSpec.TLSSecret (Nginx.Spec n) =
                 Some \<lparr>TLSSecret.SecretName = sn, KeyField = '''', CertificateField = '''',
                       KeyPath = '''', CertificatePath = ''''\<rparr> \<longrightarrow>
               NginxSpec.TLSSecret (Nginx.Spec n') =
                 Some \<lparr>TLSSecret.SecretName = sn, KeyField = ''tls.key'',
                       CertificateField = ''tls.crt'', KeyPath = ''tls.key'',
                       CertificatePath = ''tls.crt''\<rparr>) \<and>
         NginxSpec.Replicas (Nginx.Spec n') = NginxSpec.Replicas (Nginx.Spec n) \<and>
         Config (Nginx.Spec n') = Config (Nginx.Spec n) \<and>
         PodTemplate (Nginx.Spec n') = PodTemplate (Nginx.Spec n) \<and>
         Nginx.ObjectMeta n' = Nginx.ObjectMeta n"
proof -
  from NewDeployment_run [of n marshal]
  have "snd (NewDeployment marshal n) = n\<lparr>Nginx.Spec := spec_normalize (Nginx.Spec n)\<rparr>"
    by auto
  with assms have n': "n' = n\<lparr>Nginx.Spec := spec_normalize (Nginx.Spec n)\<rparr>"
    by simp
  show ?thesis
    unfolding n'
    by (simp add: spec_normalize_def spec_normalizeTLS_def Let_def)
qed

theorem normalization_defaults_witness:
  "snd (NewDeployment exampleMarshal exampleNginx) =
     exampleNginx\<lparr>Nginx.Spec := exampleResolvedSpec\<rparr> \<and>
   NginxSpec.Image (Nginx.Spec exampleNginx) = '''' \<and>
   NginxSpec.Image exampleResolvedSpec = ''nginx:latest'' \<and>
   NginxSpec.TLSSecret (Nginx.Spec exampleNginx) =
     Some \<lparr>TLSSecret.SecretName = ''mysecret'', KeyField = '''', CertificateField = '''',
           KeyPath = '''', CertificatePath = ''''\<rparr> \<and>
   NginxSpec.TLSSecret exampleResolvedSpec =
     Some \<lparr>TLSSecret.SecretName = ''mysecret'', KeyField = ''tls.key'',
           CertificateField = ''tls.crt'', KeyPath = ''tls.key'',
           CertificatePath = ''tls.crt''\<rparr>"
proof -
  have run: "snd (NewDeployment exampleMarshal exampleNginx) =
     exampleNginx\<lparr>Nginx.Spec := exampleResolvedSpec\<rparr>"
    by (simp add: example_run)
  have tls: "NginxSpec.TLSSecret (Nginx.Spec exampleNginx) =
     Some \<lparr>TLSSecret.SecretName = ''mysecret'', KeyField = '''', CertificateField = '''',
           KeyPath = '''', CertificatePath = ''''\<rparr>"
    and image: "NginxSpec.Image (Nginx.Spec exampleNginx) = ''''"
    by (simp_all add: exampleNginx_def exampleSpec_def)
  from normalization_defaults [OF run] run tls image show ?thesis
    by simp
qed


text \<open>
  C8. The mount of \<open>setupConfig\<close>. On a deployment that has a container (the code
  indexes \<open>Containers[0]\<close>), \<open>setupConfig\<close> with a config reference returns without
  failure and has appended to the first container the volume mount "nginx-config" at
  "/etc/nginx", whatever the kind of the reference. When the kind is neither of the two
  known kinds, nothing else changes: the volumes are as before, so the mount names a
  volume that \<open>setupConfig\<close> did not add.
\<close>

theorem setupConfig_mount:
  assumes "Containers (depPodSpec dep) = c0 # cs"
  shows "\<exists>dep'. setupConfig (Some c) dep = Inr dep' \<and>
           Containers (depPodSpec dep') =
             c0\<lparr>VolumeMounts := VolumeMounts c0 @
                  [\<lparr>VolumeMount.Name = ''nginx-config'', MountPath = ''/etc/nginx''\<rparr>]\<rparr> # cs \<and>
           (ConfigRef.Kind c \<noteq> ConfigKindConfigMap \<and> ConfigRef.Kind c \<noteq> ConfigKindInline \<longrightarrow>
              Volumes (depPodSpec dep') = Volumes (depPodSpec dep) \<and>
              dep' = depSetPodSpec ((depPodSpec dep)\<lparr>Containers := Containers (depPodSpec dep')\<rparr>) dep)"
  using assms by (simp add: setupConfig_def Let_def path_defs configMountPath_def)

theorem setupConfig_mount_witness:
  "Containers (depPodSpec (deploymentLiteral exampleNginx)) =
     [exampleContainer\<lparr>Container.Image := '''',
        Container.Ports := [\<lparr>ContainerPort.Name = ''http'', ContainerPort = 80,
                             ContainerPort.Protocol = ProtocolTCP\<rparr>],
        ReadinessProbe := Some \<lparr>Handler = \<lparr>HTTPGet = Some
          \<lparr>HTTPGetAction.Path = ''/'', HTTPGetAction.Port = FromString ''http'',
           Scheme = URISchemeHTTP\<rparr>\<rparr>\<rparr>,
        VolumeMounts := []\<rparr>] \<and>
   ConfigRef.Kind \<lparr>ConfigRef.Kind = ''Secret'', ConfigRef.Name = ''x'', Value = ''''\<rparr> \<noteq>
     ConfigKindConfigMap \<and>
   ConfigRef.Kind \<lparr>ConfigRef.Kind = ''Secret'', ConfigRef.Name = ''x'', Value = ''''\<rparr> \<noteq>
     ConfigKindInline \<and>
   (\<exists>dep'. setupConfig
        (Some \<lparr>ConfigRef.Kind = ''Secret'', ConfigRef.Name = ''x'', Value = ''''\<rparr>)
        (deploymentLiteral exampleNginx) = Inr dep' \<and>
      map VolumeMounts (Containers (depPodSpec dep')) =
        [[\<lparr>VolumeMount.Name = ''nginx-config'', MountPath = ''/etc/nginx''\<rparr>]] \<and>
      Volumes (depPodSpec dep') = [])"
proof -
  let ?c0 = "exampleContainer\<lparr>Container.Image := '''',
        Container.Ports := [\<lparr>ContainerPort.Name = ''http'', ContainerPort = 80,
                             ContainerPort.Protocol = ProtocolTCP\<rparr>],
        ReadinessProbe := Some \<lparr>Handler = \<lparr>HTTPGet = Some
          \<lparr>HTTPGetAction.Path = ''/'', HTTPGetAction.Port = FromString ''http'',
           Scheme = URISchemeHTTP\<rparr>\<rparr>\<rparr>,
        VolumeMounts := []\<rparr>"
  have c: "Containers (depPodSpec (deploymentLiteral exampleNginx)) = [?c0]"
    by (simp add: literal_containers exampleContainer_def exampleNginx_def exampleSpec_def)
  have v: "Volumes (depPodSpec (deploymentLiteral exampleNginx)) = []"
    by (simp add: literal_rest)
  have k: "''Secret'' \<noteq> ConfigKindConfigMap" "''Secret'' \<noteq> ConfigKindInline"
    by (simp_all add: ConfigKindConfigMap_def ConfigKindInline_def)
  from setupConfig_mount [OF c,
      of "\<lparr>ConfigRef.Kind = ''Secret'', ConfigRef.Name = ''x'', Value = ''''\<rparr>"] c v k
  show ?thesis by auto
qed


text \<open>
  C9. Idempotence. A second call of \<open>NewDeployment\<close> on the resource as the first call
  left it returns the same deployment (or the same error) and leaves the resource as it
  is; \<open>NewService\<close> returns the same service for the resource before and after
  \<open>NewDeployment\<close> has written the defaults into it.
\<close>

theorem reconcile_idempotent:
  "NewDeployment marshal (snd (NewDeployment marshal n)) = NewDeployment marshal n \<and>
   NewService (snd (NewDeployment marshal n)) = NewService n"
proof -
  let ?s = "spec_normalize (Nginx.Spec n)"
  let ?n' = "n\<lparr>Nginx.Spec := ?s\<rparr>"
  let ?sec = "NginxSpec.TLSSecret (Nginx.Spec n)"
  from NewDeployment_run [of n marshal] obtain dep1 dep2 where
    dep1: "setupConfig (Config (Nginx.Spec n)) (deploymentLiteral ?n') = Inr dep1"
    and dep2: "setupTLS ?sec dep1 = Inr (map_option spec_normalizeTLS ?sec, dep2)"
    and run: "NewDeployment marshal n =
       (case marshal ?s of
          Inl err \<Rightarrow> Inl err
        | Inr j \<Rightarrow> Inr (dep2\<lparr>Deployment.ObjectMeta := (Deployment.ObjectMeta dep2)
                     \<lparr>Annotations := Some [generatedFromAnnotation \<mapsto> j]\<rparr>\<rparr>), ?n')"
    by blast
  define m where "m = ?n'"
  have again: "m\<lparr>Nginx.Spec := spec_normalize (Nginx.Spec m)\<rparr> = m"
    by (simp add: m_def spec_normalize_idem)
  have spec': "spec_normalize (Nginx.Spec m) = ?s"
    and conf': "Config (Nginx.Spec m) = Config (Nginx.Spec n)"
    and sec': "NginxSpec.TLSSecret (Nginx.Spec m) = map_option spec_normalizeTLS ?sec"
    by (simp_all add: m_def spec_normalize_idem) (simp_all add: spec_normalize_def)
  have norm2: "map_option spec_normalizeTLS (map_option spec_normalizeTLS ?sec) =
      map_option spec_normalizeTLS ?sec"
    by (cases ?sec) (simp_all add: spec_normalizeTLS_idem)
  note NewDeployment_run [of m marshal, unfolded again, unfolded spec' conf' sec' norm2,
    unfolded m_def]
  then obtain dep1' dep2' where
    dep1': "setupConfig (Config (Nginx.Spec n)) (deploymentLiteral ?n') = Inr dep1'"
    and dep2': "setupTLS (map_option spec_normalizeTLS ?sec) dep1' =
       Inr (map_option spec_normalizeTLS ?sec, dep2')"
    and run': "NewDeployment marshal ?n' =
       (case marshal ?s of
          Inl err \<Rightarrow> Inl err
        | Inr j \<Rightarrow> Inr (dep2'\<lparr>Deployment.ObjectMeta := (Deployment.ObjectMeta dep2')
                     \<lparr>Annotations := Some [generatedFromAnnotation \<mapsto> j]\<rparr>\<rparr>), ?n')"
    by blast
  from dep1 dep1' have same1: "dep1' = dep1" by simp
  from setupTLS_idem [OF dep2] dep2' have same2: "dep2' = dep2"
    unfolding same1 by simp
  have snd_run: "snd (NewDeployment marshal n) = ?n'"
    by (simp add: run)
  have deployment: "NewDeployment marshal ?n' = NewDeployment marshal n"
    unfolding run run' same2 ..
  have service: "NewService ?n' = NewService n"
    by (cases ?sec)
      (simp_all add: NewService_def Let_def NewControllerRef_def spec_normalize_def)
  from deployment service show ?thesis
    unfolding snd_run by simp
qed

theorem reconcile_idempotent_witness:
  "NewDeployment exampleMarshal (exampleNginx\<lparr>Nginx.Spec := exampleResolvedSpec\<rparr>) =
     (Inr exampleDeployment, exampleNginx\<lparr>Nginx.Spec := exampleResolvedSpec\<rparr>) \<and>
   NewService (exampleNginx\<lparr>Nginx.Spec := exampleResolvedSpec\<rparr>) = NewService exampleNginx"
  using reconcile_idempotent [of exampleMarshal exampleNginx]
  by (simp add: example_run)


text \<open>
  C10. Inline configuration. For a config reference of the inline kind with name N and
  value V, the pod template of the deployment that \<open>NewDeployment\<close> returns has exactly
  the annotation N = V; its first volume is "nginx-config", a downward-API volume with the
  one file "nginx.conf" read from the field path metadata.annotations['N'], and no
  other volume has that name; the container mounts "nginx-config" at "/etc/nginx".
\<close>

theorem inline_config:
  assumes "Config (Nginx.Spec n) = Some c" and "ConfigRef.Kind c = ConfigKindInline"
    and "fst (NewDeployment marshal n) = Inr d"
  shows "depTemplateAnnotations d = Some [ConfigRef.Name c \<mapsto> Value c] \<and>
         mapLookup (depTemplateAnnotations d) (ConfigRef.Name c) = Some (Value c) \<and>
         (\<exists>vs. Volumes (depPodSpec d) =
            \<lparr>Volume.Name = ''nginx-config'',
             VolumeSource =
               \<lparr>ConfigMap = None,
                DownwardAPI = Some \<lparr>DownwardAPIVolumeSource.Items =
                  [\<lparr>DownwardAPIVolumeFile.Path = ''nginx.conf'',
                    FieldRef = Some \<lparr>FieldPath =
                      ''metadata.annotations['' @ [CHR 0x27] @ ConfigRef.Name c @
                      [CHR 0x27] @ '']''\<rparr>\<rparr>]\<rparr>,
                Secret = None\<rparr>\<rparr> # vs \<and>
            (\<forall>v \<in> set vs. Volume.Name v \<noteq> ''nginx-config'')) \<and>
         (\<exists>c0 ms. Containers (depPodSpec d) = [c0] \<and>
            VolumeMounts c0 =
              \<lparr>VolumeMount.Name = ''nginx-config'', MountPath = ''/etc/nginx''\<rparr> # ms)"
proof -
  let ?s = "spec_normalize (Nginx.Spec n)"
  let ?vol = "\<lparr>Volume.Name = ''nginx-config'',
             VolumeSource =
               \<lparr>ConfigMap = None,
                DownwardAPI = Some \<lparr>DownwardAPIVolumeSource.Items =
                  [\<lparr>DownwardAPIVolumeFile.Path = ''nginx.conf'',
                    FieldRef = Some \<lparr>FieldPath =
                      ''metadata.annotations['' @ [CHR 0x27] @ ConfigRef.Name c @
                      [CHR 0x27] @ '']''\<rparr>\<rparr>]\<rparr>,
                Secret = None\<rparr>\<rparr>"
  from NewDeployment_obs [of marshal n] obtain d0 where
    run: "NewDeployment marshal n =
       (case marshal ?s of
          Inl err \<Rightarrow> Inl err
        | Inr j \<Rightarrow> Inr (d0\<lparr>Deployment.ObjectMeta := (Deployment.ObjectMeta d0)
                     \<lparr>Annotations := Some [generatedFromAnnotation \<mapsto> j]\<rparr>\<rparr>),
        n\<lparr>Nginx.Spec := ?s\<rparr>)"
    and anns0: "depTemplateAnnotations d0 =
       (case Config (Nginx.Spec n) of None \<Rightarrow> None
        | Some c \<Rightarrow> if ConfigRef.Kind c = ConfigKindInline
                    then Some [ConfigRef.Name c \<mapsto> Value c] else None)"
    and cont0: "\<exists>c0. Containers (depPodSpec d0) = [c0] \<and>
        VolumeMounts c0 =
          (case Config (Nginx.Spec n) of None \<Rightarrow> []
           | Some _ \<Rightarrow> [\<lparr>VolumeMount.Name = ''nginx-config'', MountPath = ''/etc/nginx''\<rparr>]) @
          (case NginxSpec.TLSSecret (Nginx.Spec n) of None \<Rightarrow> []
           | Some _ \<Rightarrow>
               [\<lparr>VolumeMount.Name = ''nginx-certs'', MountPath = ''/etc/nginx/certs''\<rparr>])"
    and vols0: "Volumes (depPodSpec d0) =
       (case Config (Nginx.Spec n) of None \<Rightarrow> []
        | Some c \<Rightarrow>
            if ConfigRef.Kind c = ConfigKindConfigMap then
              [\<lparr>Volume.Name = ''nginx-config'',
                VolumeSource =
                  \<lparr>ConfigMap = Some \<lparr>LocalObjectReference =
                     \<lparr>LocalObjectReference.Name = ConfigRef.Name c\<rparr>\<rparr>,
                   DownwardAPI = None, Secret = None\<rparr>\<rparr>]
            else if ConfigRef.Kind c = ConfigKindInline then
              [\<lparr>Volume.Name = ''nginx-config'',
                VolumeSource =
                  \<lparr>ConfigMap = None,
                   DownwardAPI = Some \<lparr>DownwardAPIVolumeSource.Items =
                     [\<lparr>DownwardAPIVolumeFile.Path = ''nginx.conf'',
                       FieldRef = Some \<lparr>FieldPath =
                         ''metadata.annotations['' @ [CHR 0x27] @ ConfigRef.Name c @
                         [CHR 0x27] @ '']''\<rparr>\<rparr>]\<rparr>,
                   Secret = None\<rparr>\<rparr>]
            else []) @
       (case NginxSpec.TLSSecret ?s of None \<Rightarrow> []
        | Some s \<Rightarrow>
            [\<lparr>Volume.Name = ''nginx-certs'',
              VolumeSource =
                \<lparr>ConfigMap = None, DownwardAPI = None,
                 Secret = Some
                   \<lparr>SecretVolumeSource.SecretName = TLSSecret.SecretName s,
                    SecretVolumeSource.Items =
                      [\<lparr>Key = KeyField s, KeyToPath.Path = KeyPath s\<rparr>,
                       \<lparr>Key = CertificateField s, KeyToPath.Path = CertificatePath s\<rparr>]\<rparr>\<rparr>\<rparr>])"
    by blast
  have not_map: "ConfigKindInline \<noteq> ConfigKindConfigMap"
    using kinds_distinct by simp
  have anns: "depTemplateAnnotations d0 = Some [ConfigRef.Name c \<mapsto> Value c]"
    using anns0 assms(1,2) by simp
  have cont: "\<exists>c0 ms. Containers (depPodSpec d0) = [c0] \<and>
            VolumeMounts c0 =
              \<lparr>VolumeMount.Name = ''nginx-config'', MountPath = ''/etc/nginx''\<rparr> # ms"
    using cont0 assms(1) by auto
  have vols: "Volumes (depPodSpec d0) = ?vol #
       (case NginxSpec.TLSSecret ?s of None \<Rightarrow> []
        | Some s \<Rightarrow>
            [\<lparr>Volume.Name = ''nginx-certs'',
              VolumeSource =
                \<lparr>ConfigMap = None, DownwardAPI = None,
                 Secret = Some
                   \<lparr>SecretVolumeSource.SecretName = TLSSecret.SecretName s,
                    SecretVolumeSource.Items =
                      [\<lparr>Key = KeyField s, KeyToPath.Path = KeyPath s\<rparr>,
                       \<lparr>Key = CertificateField s, KeyToPath.Path = CertificatePath s\<rparr>]\<rparr>\<rparr>\<rparr>])"
    using vols0 assms(1,2) not_map by simp
  from assms(3) run obtain j where
    d: "d = d0\<lparr>Deployment.ObjectMeta := (Deployment.ObjectMeta d0)
                     \<lparr>Annotations := Some [generatedFromAnnotation \<mapsto> j]\<rparr>\<rparr>"
    by (auto split: sum.splits)
  have others: "\<exists>vs. Volumes (depPodSpec d0) = ?vol # vs \<and>
      (\<forall>v \<in> set vs. Volume.Name v \<noteq> ''nginx-config'')"
    unfolding vols by (cases "NginxSpec.TLSSecret ?s") simp_all
  from anns others cont show ?thesis
    by (simp add: d meta_update_obs mapLookup_def)
qed

theorem inline_config_witness:
  "Config (Nginx.Spec exampleNginx) =
     Some \<lparr>ConfigRef.Kind = ConfigKindInline, ConfigRef.Name = ''custom'',
           Value = ''worker_processes 2;''\<rparr> \<and>
   fst (NewDeployment exampleMarshal exampleNginx) = Inr exampleDeployment \<and>
   depTemplateAnnotations exampleDeployment = Some [''custom'' \<mapsto> ''worker_processes 2;''] \<and>
   Volumes (depPodSpec exampleDeployment) = exampleVolumes"
proof -
  let ?c = "\<lparr>ConfigRef.Kind = ConfigKindInline, ConfigRef.Name = ''custom'',
           Value = ''worker_processes 2;''\<rparr>"
  have conf: "Config (Nginx.Spec exampleNginx) = Some ?c"
    by (simp add: exampleNginx_def exampleSpec_def)
  have kind: "ConfigRef.Kind ?c = ConfigKindInline" by simp
  have ok: "fst (NewDeployment exampleMarshal exampleNginx) = Inr exampleDeployment"
    by (simp add: example_run)
  have vols: "Volumes (depPodSpec exampleDeployment) = exampleVolumes"
    by (simp add: exampleDeployment_def depPodSpec_def)
  from inline_config [OF conf kind ok] conf ok vols show ?thesis
    by simp
qed


end
